theory Spec2Isabelle
  imports Complex_Main
begin

section \<open>Python values used by FlipsideApi.py\<close>

text \<open>
  Exceptions that can leave a function of \<^verbatim>\<open>FlipsideApi.py\<close>. A function that can raise
  returns \<open>error + 'a\<close>, with \<open>Inl\<close> for the exception.
\<close>

datatype error =
    Exception string
  | ZeroDivisionError
  | UnboundLocalError string
  | ValueError string
  | OSError string
  | RecursionError

text \<open>
  The two kinds of Python object that line 94 compares: \<^verbatim>\<open>df.shape\<close> is a tuple of two
  ints, \<^verbatim>\<open>self.MAX_ROWS\<close> is an int. Python's \<^verbatim>\<open>==\<close> between them is the
  equality of this datatype: a tuple is never equal to an int.
\<close>

datatype pyobj = PyInt int | PyTuple "pyobj list"

text \<open>\<^verbatim>\<open>str(n)\<close> for an int, as an f-string formats it.\<close>

fun str_nat :: "nat \<Rightarrow> string" where
  "str_nat n =
     (if n < 10 then [char_of (48 + n)]
      else str_nat (n div 10) @ [char_of (48 + n mod 10)])"

declare str_nat.simps [simp del]

definition str_int :: "int \<Rightarrow> string" where
  "str_int i = (if i < 0 then CHR ''-'' # str_nat (nat (- i)) else str_nat (nat i))"

text \<open>
  \<^verbatim>\<open>xs[start:stop]\<close> on a list (or a one-dimensional array) with int bounds: a negative
  bound counts from the end, and both bounds are clamped to the length.
\<close>

definition py_slice :: "'a list \<Rightarrow> int \<Rightarrow> int \<Rightarrow> 'a list" where
  "py_slice xs start stop =
     (let n = int (length xs);
          lo = (if start < 0 then max (start + n) 0 else min start n);
          hi = (if stop < 0 then max (stop + n) 0 else min stop n)
      in take (nat (hi - lo)) (drop (nat lo) xs))"

text \<open>\<^verbatim>\<open>range(n)\<close>: empty when \<open>n \<le> 0\<close>.\<close>

definition py_range :: "int \<Rightarrow> int list" where
  "py_range n = [0..n - 1]"

text \<open>\<^verbatim>\<open>os.path.join(a, b)\<close> of posixpath, for two components.\<close>

definition os_path_join :: "string \<Rightarrow> string \<Rightarrow> string" where
  "os_path_join a b =
     (if take 1 b = ''/'' then b
      else if a = [] \<or> last a = CHR ''/'' then a @ b
      else a @ ''/'' @ b)"

text \<open>
  A triple-quoted f-string whose first character is a newline: every line of the
  template ends with a newline, and the text ends with the indentation in front of the
  closing quotes.
\<close>

definition fstring_lines :: "string list \<Rightarrow> string \<Rightarrow> string" where
  "fstring_lines ls tail = [CHR 0x0A] @ concat (map (\<lambda>l. l @ [CHR 0x0A]) ls) @ tail"

section \<open>Data model\<close>

text \<open>
  A row of a result table. The columns are those the query builders select; the native
  value column is absent on gnosis.
\<close>

record transaction =
  tx_hash :: string
  block_timestamp :: string
  from_address :: string
  to_address :: string
  gas_limit :: int
  gas_used :: int
  tx_fee :: string
  native_value :: "string option"

type_synonym dataframe = "transaction list"

text \<open>\<^verbatim>\<open>df.shape[0]\<close>, the row count, and \<^verbatim>\<open>df.shape\<close>, the pair (rows, columns).\<close>

definition shape_0 :: "dataframe \<Rightarrow> int" where
  "shape_0 df = int (length df)"

definition n_columns :: "dataframe \<Rightarrow> int" where
  "n_columns df =
     (case df of [] \<Rightarrow> 0 | r # _ \<Rightarrow> (if native_value r = None then 7 else 8))"

definition shape :: "dataframe \<Rightarrow> pyobj" where
  "shape df = PyTuple [PyInt (shape_0 df), PyInt (n_columns df)]"

text \<open>The fields that \<^verbatim>\<open>__init__\<close> sets (the SDK handle is the parameter \<open>sdk\<close> below).\<close>

record FlipsideApi =
  api_key :: string
  PAGE_SIZE :: int
  TIMEOUT_MINUTES :: int
  PAGE_NUMBER :: int
  MAX_ADDRESS :: int
  TTL_MINUTES :: int
  CACHED :: bool
  RETRY_INTERVAL_SECONDS :: int
  MAX_ROWS :: int

definition FlipsideApi_init ::
  "string \<Rightarrow> int \<Rightarrow> int \<Rightarrow> int \<Rightarrow> int \<Rightarrow> int \<Rightarrow> bool \<Rightarrow> int \<Rightarrow> FlipsideApi" where
  "FlipsideApi_init key page_size timeout_minutes page_number max_address ttl cached
       retry_interval =
     \<lparr>api_key = key, PAGE_SIZE = page_size, TIMEOUT_MINUTES = timeout_minutes,
      PAGE_NUMBER = page_number, MAX_ADDRESS = max_address, TTL_MINUTES = ttl,
      CACHED = cached, RETRY_INTERVAL_SECONDS = retry_interval, MAX_ROWS = 1000000\<rparr>"

text \<open>The constructor with its default arguments.\<close>

definition FlipsideApi_default :: "string \<Rightarrow> FlipsideApi" where
  "FlipsideApi_default key = FlipsideApi_init key 100000 4 1 100 60 True 1"

section \<open>The world: the query service, the file system, standard output\<close>

text \<open>
  The arguments of one call of \<^verbatim>\<open>sdk.query\<close>, and the service as a state machine: a call
  either raises (\<open>Inl\<close> of the exception's text, what \<^verbatim>\<open>print(e)\<close> shows) or returns the
  records of the page, and moves the service to a new state. Every exception of the
  client is a subclass of \<^verbatim>\<open>Exception\<close>, which is what line 69 catches.
\<close>

record query_args =
  q_sql :: string
  q_page_size :: int
  q_page_number :: int
  q_timeout_minutes :: int
  q_ttl_minutes :: int
  q_cached :: bool
  q_retry_interval_seconds :: int

type_synonym 's ShroomDK = "query_args \<Rightarrow> 's \<Rightarrow> (string + dataframe) \<times> 's"

text \<open>
  The file system is outside the program too. The program reaches it through three
  calls: \<^verbatim>\<open>os.path.exists\<close>, which answers, and \<^verbatim>\<open>os.makedirs\<close> and
  \<^verbatim>\<open>DataFrame.to_csv\<close>, which change the state of the file system or raise (an
  \<^verbatim>\<open>OSError\<close>: a directory that is missing, a file where a directory is expected).
  What these calls do to a path is theirs to say, so they are parameters, over a state
  \<open>'f\<close> of the file system.
\<close>

record 'f os_api =
  os_path_exists :: "string \<Rightarrow> 'f \<Rightarrow> bool"
  os_makedirs :: "string \<Rightarrow> 'f \<Rightarrow> error + 'f"
  to_csv :: "dataframe \<Rightarrow> string \<Rightarrow> 'f \<Rightarrow> error + 'f"

text \<open>
  What the program changes: the lines printed, the state of the file system and the
  state of the service.
\<close>

record ('s, 'f) world =
  stdout :: "string list"
  files :: 'f
  service :: 's

definition py_print :: "string \<Rightarrow> ('s, 'f) world \<Rightarrow> ('s, 'f) world" where
  "py_print line w = w\<lparr>stdout := stdout w @ [line]\<rparr>"

text \<open>A \<^verbatim>\<open>for\<close> loop whose body can raise: the first exception ends the loop.\<close>

fun for_each :: "('i \<Rightarrow> 'w \<Rightarrow> error + 'w) \<Rightarrow> 'i list \<Rightarrow> 'w \<Rightarrow> error + 'w" where
  "for_each body [] w = Inr w"
| "for_each body (i # rest) w =
     (case body i w of Inl e \<Rightarrow> Inl e | Inr w' \<Rightarrow> for_each body rest w')"

section \<open>FlipsideApi.py\<close>

subsection \<open>save_csv (lines 8-11)\<close>

definition save_csv ::
  "'f os_api \<Rightarrow> dataframe \<Rightarrow> string \<Rightarrow> string \<Rightarrow> ('s, 'f) world \<Rightarrow> error + ('s, 'f) world" where
  "save_csv os df path_to_export csv_file w =
     (case (if \<not> os_path_exists os path_to_export (files w)
            then os_makedirs os path_to_export (files w)
            else Inr (files w)) of
        Inl e \<Rightarrow> Inl e
      | Inr f1 \<Rightarrow>
          (case to_csv os df csv_file f1 of
             Inl e \<Rightarrow> Inl e
           | Inr f2 \<Rightarrow> Inr (w\<lparr>files := f2\<rparr>)))"

subsection \<open>execute_query_page (lines 59-73)\<close>

definition execute_query_page ::
  "FlipsideApi \<Rightarrow> 's ShroomDK \<Rightarrow> string \<Rightarrow> int \<Rightarrow> ('s, 'f) world \<Rightarrow> dataframe \<times> ('s, 'f) world" where
  "execute_query_page self sdk sql page_number w =
     (case sdk \<lparr>q_sql = sql, q_page_size = PAGE_SIZE self, q_page_number = page_number,
                 q_timeout_minutes = TIMEOUT_MINUTES self, q_ttl_minutes = TTL_MINUTES self,
                 q_cached = CACHED self,
                 q_retry_interval_seconds = RETRY_INTERVAL_SECONDS self\<rparr> (service w) of
        (Inl e, s') \<Rightarrow> ([], py_print sql (py_print e (w\<lparr>service := s'\<rparr>)))
      | (Inr records, s') \<Rightarrow> (records, w\<lparr>service := s'\<rparr>))"

subsection \<open>execute_query (lines 44-57)\<close>

text \<open>
  The \<^verbatim>\<open>while\<close> loop of lines 48-52, on its variables \<open>df_size\<close>, \<open>page_number\<close> and
  \<open>list_df\<close>. It need not end: \<open>None\<close> is the loop that runs forever.
\<close>

partial_function (option) execute_query_while ::
  "FlipsideApi \<Rightarrow> 's ShroomDK \<Rightarrow> string \<Rightarrow> int \<Rightarrow> int \<Rightarrow> dataframe list \<Rightarrow> ('s, 'f) world
     \<Rightarrow> (dataframe list \<times> ('s, 'f) world) option" where
  "execute_query_while self sdk sql df_size page_number list_df w =
     (if df_size = PAGE_SIZE self then
        (case execute_query_page self sdk sql page_number w of
           (df, w') \<Rightarrow>
             execute_query_while self sdk sql (shape_0 df) (page_number + 1) (list_df @ [df]) w')
      else Some (list_df, w))"

definition truncation_warning :: string where
  "truncation_warning =
     ''WARNING: the query is probably not returning all the results, you should decrease the max_address''"

text \<open>\<^verbatim>\<open>pd.concat\<close> raises \<^verbatim>\<open>ValueError\<close> on an empty list of frames.\<close>

definition pd_concat :: "dataframe list \<Rightarrow> error + dataframe" where
  "pd_concat list_df =
     (if list_df = [] then Inl (ValueError ''No objects to concatenate'')
      else Inr (concat list_df))"

definition execute_query ::
  "FlipsideApi \<Rightarrow> 's ShroomDK \<Rightarrow> string \<Rightarrow> ('s, 'f) world \<Rightarrow> (error + dataframe \<times> ('s, 'f) world) option" where
  "execute_query self sdk sql w =
     (case execute_query_while self sdk sql (PAGE_SIZE self) 1 [] w of
        None \<Rightarrow> None
      | Some (list_df, w1) \<Rightarrow>
          (case pd_concat list_df of
             Inl e \<Rightarrow> Some (Inl e)
           | Inr df \<Rightarrow>
               Some (Inr (df, if shape_0 df = MAX_ROWS self
                              then py_print truncation_warning w1 else w1))))"

subsection \<open>get_string_address and the query builders (lines 173-331)\<close>

definition get_string_address :: "string list \<Rightarrow> string" where
  "get_string_address array_address =
     butlast (foldl (\<lambda>lower_str add. lower_str @ ''LOWER('' @ [CHR 0x27] @ add @ [CHR 0x27] @ ''),'')
                [] array_address)"

definition get_eth_transactions_sql_query :: "string list \<Rightarrow> int \<Rightarrow> string" where
  "get_eth_transactions_sql_query array_address limit =
     (let str_list_add = get_string_address array_address;
          string_limit = (if limit \<noteq> 0 then ''LIMIT '' @ str_int limit else [])
      in fstring_lines
        [''                SELECT TX_HASH,'',
         ''                BLOCK_TIMESTAMP,'',
         ''                FROM_ADDRESS,'',
         ''                TO_ADDRESS,'',
         ''                GAS_LIMIT,'',
         ''                GAS_USED,'',
         ''                TX_FEE,'',
         ''                ETH_VALUE'',
         ''                FROM ethereum.core.fact_transactions'',
         ''                WHERE FROM_ADDRESS IN ('' @ str_list_add @ '')'',
         ''                OR TO_ADDRESS IN ('' @ str_list_add @ '')'',
         ''                '' @ string_limit @ '';'']
        ''                '')"

definition get_polygon_transactions_sql_query :: "string list \<Rightarrow> int \<Rightarrow> string" where
  "get_polygon_transactions_sql_query array_address limit =
     (let str_list_add = get_string_address array_address;
          string_limit = (if limit \<noteq> 0 then ''LIMIT '' @ str_int limit else [])
      in fstring_lines
        [''                SELECT TX_HASH,'',
         ''                BLOCK_TIMESTAMP,'',
         ''                FROM_ADDRESS,'',
         ''                TO_ADDRESS,'',
         ''                GAS_LIMIT,'',
         ''                GAS_USED,'',
         ''                TX_FEE,'',
         ''                MATIC_VALUE'',
         ''                FROM polygon.core.fact_transactions'',
         ''                WHERE FROM_ADDRESS IN ('' @ str_list_add @ '')'',
         ''                OR TO_ADDRESS IN ('' @ str_list_add @ '')'',
         ''                '' @ string_limit @ '';'']
        ''                '')"

definition get_arbitrum_transactions_sql_query :: "string list \<Rightarrow> int \<Rightarrow> string" where
  "get_arbitrum_transactions_sql_query array_address limit =
     (let str_list_add = get_string_address array_address;
          string_limit = (if limit \<noteq> 0 then ''LIMIT '' @ str_int limit else [])
      in fstring_lines
        [''                SELECT TX_HASH,'',
         ''                BLOCK_TIMESTAMP,'',
         ''                FROM_ADDRESS,'',
         ''                TO_ADDRESS,'',
         ''                GAS_LIMIT,'',
         ''                GAS_USED,'',
         ''                TX_FEE,'',
         ''                ETH_VALUE'',
         ''                FROM arbitrum.core.fact_transactions'',
         ''                WHERE FROM_ADDRESS IN ('' @ str_list_add @ '')'',
         ''                OR TO_ADDRESS IN ('' @ str_list_add @ '')'',
         ''                '' @ string_limit @ '';'']
        ''                '')"

definition get_avalanche_transactions_sql_query :: "string list \<Rightarrow> int \<Rightarrow> string" where
  "get_avalanche_transactions_sql_query array_address limit =
     (let str_list_add = get_string_address array_address;
          string_limit = (if limit \<noteq> 0 then ''LIMIT '' @ str_int limit else [])
      in fstring_lines
        [''                SELECT TX_HASH,'',
         ''                BLOCK_TIMESTAMP,'',
         ''                FROM_ADDRESS,'',
         ''                TO_ADDRESS,'',
         ''                GAS_LIMIT,'',
         ''                GAS_USED,'',
         ''                TX_FEE,'',
         ''                AVAX_VALUE'',
         ''                FROM avalanche.core.fact_transactions'',
         ''                WHERE FROM_ADDRESS IN ('' @ str_list_add @ '')'',
         ''                OR TO_ADDRESS IN ('' @ str_list_add @ '')'',
         ''                '' @ string_limit @ '';'']
        ''                '')"

definition get_gnosis_transactions_sql_query :: "string list \<Rightarrow> int \<Rightarrow> string" where
  "get_gnosis_transactions_sql_query array_address limit =
     (let str_list_add = get_string_address array_address;
          string_limit = (if limit \<noteq> 0 then ''LIMIT '' @ str_int limit else [])
      in fstring_lines
        [''                    SELECT TX_HASH,'',
         ''                    BLOCK_TIMESTAMP,'',
         ''                    FROM_ADDRESS,'',
         ''                    TO_ADDRESS,'',
         ''                    GAS_LIMIT,'',
         ''                    GAS_USED,'',
         ''                    TX_FEE'',
         ''                    FROM gnosis.core.fact_transactions'',
         ''                    WHERE FROM_ADDRESS IN ('' @ str_list_add @ '')'',
         ''                    OR TO_ADDRESS IN ('' @ str_list_add @ '')'',
         ''                    '' @ string_limit @ '';'']
        ''                    '')"

definition get_optimism_transactions_sql_query :: "string list \<Rightarrow> int \<Rightarrow> string" where
  "get_optimism_transactions_sql_query array_address limit =
     (let str_list_add = get_string_address array_address;
          string_limit = (if limit \<noteq> 0 then ''LIMIT '' @ str_int limit else [])
      in fstring_lines
        [''                    SELECT TX_HASH,'',
         ''                    BLOCK_TIMESTAMP,'',
         ''                    FROM_ADDRESS,'',
         ''                    TO_ADDRESS,'',
         ''                    GAS_LIMIT,'',
         ''                    GAS_USED,'',
         ''                    TX_FEE,'',
         ''                    ETH_VALUE'',
         ''                    FROM optimism.core.fact_transactions'',
         ''                    WHERE FROM_ADDRESS IN ('' @ str_list_add @ '')'',
         ''                    OR TO_ADDRESS IN ('' @ str_list_add @ '')'',
         ''                    '' @ string_limit @ '';'']
        ''                    '')"

text \<open>
  Line 319 builds the exception and drops it: there is no \<^verbatim>\<open>raise\<close>. \<open>table_name\<close> is
  then unbound, and reading it at line 327 raises \<^verbatim>\<open>UnboundLocalError\<close>.
\<close>

definition get_cross_chain_info_sql_query ::
  "string list \<Rightarrow> string \<Rightarrow> int \<Rightarrow> error + string" where
  "get_cross_chain_info_sql_query array_address info_type limit =
     (let str_list_add = get_string_address array_address;
          table_name_opt =
            (if info_type = ''label'' then Some ''crosschain.address_labels''
             else if info_type = ''tag'' then Some ''crosschain.address_tags''
             else None);
          string_limit = (if limit \<noteq> 0 then ''LIMIT '' @ str_int limit else [])
      in case table_name_opt of
           None \<Rightarrow> Inl (UnboundLocalError ''table_name'')
         | Some table_name \<Rightarrow> Inr (fstring_lines
             [''                SELECT *'',
              ''                FROM '' @ table_name,
              ''                WHERE ADDRESS IN ('' @ str_list_add @ '')'',
              ''                '' @ string_limit @ '';'']
             ''                ''))"

subsection \<open>get_transactions (lines 101-118)\<close>

definition get_transactions ::
  "FlipsideApi \<Rightarrow> 's ShroomDK \<Rightarrow> string list \<Rightarrow> string \<Rightarrow> ('s, 'f) world
     \<Rightarrow> (error + dataframe \<times> ('s, 'f) world) option" where
  "get_transactions self sdk array_address network w =
     (if network = ''ethereum'' then
        execute_query self sdk (get_eth_transactions_sql_query array_address 0) w
      else if network = ''polygon'' then
        execute_query self sdk (get_polygon_transactions_sql_query array_address 0) w
      else if network = ''arbitrum'' then
        execute_query self sdk (get_arbitrum_transactions_sql_query array_address 0) w
      else if network = ''avalanche'' then
        execute_query self sdk (get_avalanche_transactions_sql_query array_address 0) w
      else if network = ''gnosis'' then
        execute_query self sdk (get_gnosis_transactions_sql_query array_address 0) w
      else if network = ''optimism'' then
        execute_query self sdk (get_optimism_transactions_sql_query array_address 0) w
      else Some (Inl (Exception ''Network not supported'')))"

subsection \<open>export_address (lines 120-150)\<close>

text \<open>The body of the \<^verbatim>\<open>for\<close> loop of line 142, for one address.\<close>

definition export_address_body ::
  "'f os_api \<Rightarrow> dataframe \<Rightarrow> string \<Rightarrow> string \<Rightarrow> string \<Rightarrow> ('s, 'f) world
     \<Rightarrow> error + ('s, 'f) world" where
  "export_address_body os df extract_dir network address w =
     (let df_address_transactions =
            filter (\<lambda>r. from_address r = address \<or> to_address r = address) df;
          path_to_export = os_path_join extract_dir network;
          csv_file = os_path_join path_to_export (address @ ''_tx.csv'')
      in if shape_0 df_address_transactions > 0
         then save_csv os df_address_transactions path_to_export csv_file w
         else Inr w)"

definition export_address ::
  "'f os_api \<Rightarrow> dataframe \<Rightarrow> string list \<Rightarrow> string \<Rightarrow> string \<Rightarrow> ('s, 'f) world
     \<Rightarrow> error + ('s, 'f) world" where
  "export_address os df np_address extract_dir network w =
     for_each (export_address_body os df extract_dir network) np_address w"

subsection \<open>extract_transactions_rec and extract_transactions_between_rec (lines 152-171)\<close>

definition extracting_line :: "int \<Rightarrow> int \<Rightarrow> string" where
  "extracting_line start_index end_index =
     ''Extracting transactions for address: '' @ str_int start_index @ '' - '' @ str_int end_index"

text \<open>
  The two functions call each other, and nothing in them ends the recursion. What ends
  it is the interpreter: a call that would nest deeper than its recursion limit raises
  \<^verbatim>\<open>RecursionError\<close>, and neither function catches it. \<open>stack\<close> is the number of nested
  calls of these two functions that the interpreter's stack still admits: a call with
  \<open>stack = 0\<close> raises, and a call made from inside a call has one less. (The frames
  of the other functions they call are not counted: these calls are taken to fit.)
  \<open>None\<close> is a query whose pagination never ends.
\<close>

fun extract_transactions_rec ::
  "FlipsideApi \<Rightarrow> 's ShroomDK \<Rightarrow> 'f os_api \<Rightarrow> string list \<Rightarrow> int \<Rightarrow> int \<Rightarrow> string \<Rightarrow> string
     \<Rightarrow> nat \<Rightarrow> ('s, 'f) world \<Rightarrow> (error + ('s, 'f) world) option"
and extract_transactions_between_rec ::
  "FlipsideApi \<Rightarrow> 's ShroomDK \<Rightarrow> 'f os_api \<Rightarrow> string list \<Rightarrow> int \<Rightarrow> int \<Rightarrow> string \<Rightarrow> string
     \<Rightarrow> nat \<Rightarrow> ('s, 'f) world \<Rightarrow> (error + ('s, 'f) world) option" where
  "extract_transactions_rec self sdk os array_address start_index end_index network extract_dir
       0 w = Some (Inl RecursionError)"
| "extract_transactions_rec self sdk os array_address start_index end_index network extract_dir
       (Suc stack) w =
     (let end_first_slice = (start_index + end_index) div 2;
          w1 = py_print ''Retrying with smaller query'' w
      in case extract_transactions_between_rec self sdk os array_address
                start_index end_first_slice network extract_dir stack w1 of
           None \<Rightarrow> None
         | Some (Inl e) \<Rightarrow> Some (Inl e)
         | Some (Inr w2) \<Rightarrow>
             extract_transactions_between_rec self sdk os array_address
               end_first_slice end_index network extract_dir stack w2)"
| "extract_transactions_between_rec self sdk os array_address start_index end_index network
       extract_dir 0 w = Some (Inl RecursionError)"
| "extract_transactions_between_rec self sdk os array_address start_index end_index network
       extract_dir (Suc stack) w =
     (case get_transactions self sdk (py_slice array_address start_index end_index) network
             (py_print (extracting_line start_index end_index) w) of
        None \<Rightarrow> None
      | Some (Inl e) \<Rightarrow> Some (Inl e)
      | Some (Inr (df, w1)) \<Rightarrow>
          if shape_0 df = 0 then
            extract_transactions_rec self sdk os array_address start_index end_index network
              extract_dir stack (py_print ''Retrying with smaller query'' w1)
          else
            (case export_address os df (py_slice array_address start_index end_index)
                    extract_dir network w1 of
               Inl e \<Rightarrow> Some (Inl e)
             | Inr w2 \<Rightarrow> Some (Inr w2)))"

subsection \<open>extract_transactions_net (lines 81-99)\<close>

text \<open>A \<^verbatim>\<open>for\<close> loop whose body can raise, or not return.\<close>

fun for_loop :: "('i \<Rightarrow> 'w \<Rightarrow> (error + 'w) option) \<Rightarrow> 'i list \<Rightarrow> 'w \<Rightarrow> (error + 'w) option" where
  "for_loop body [] w = Some (Inr w)"
| "for_loop body (i # rest) w =
     (case body i w of
        None \<Rightarrow> None
      | Some (Inl e) \<Rightarrow> Some (Inl e)
      | Some (Inr w') \<Rightarrow> for_loop body rest w')"

text \<open>Lines 84-86: the number of batches.\<close>

definition batch_count :: "int \<Rightarrow> int \<Rightarrow> error + int" where
  "batch_count len_address max_address =
     (if max_address = 0 then Inl ZeroDivisionError
      else (let q = len_address div max_address; r = len_address mod max_address
            in Inr (if r \<noteq> 0 then q + 1 else q)))"

text \<open>Lines 88-99: the body of the loop over the batches.\<close>

definition extract_transactions_net_body ::
  "FlipsideApi \<Rightarrow> 's ShroomDK \<Rightarrow> 'f os_api \<Rightarrow> string \<Rightarrow> string list \<Rightarrow> string \<Rightarrow> nat \<Rightarrow> int
     \<Rightarrow> ('s, 'f) world \<Rightarrow> (error + ('s, 'f) world) option" where
  "extract_transactions_net_body self sdk os extract_dir array_address network stack i w =
     (let start_index = i * MAX_ADDRESS self;
          end_index = (i + 1) * MAX_ADDRESS self;
          w1 = py_print (extracting_line start_index end_index) w
      in case get_transactions self sdk (py_slice array_address start_index end_index)
                network w1 of
           None \<Rightarrow> None
         | Some (Inl e) \<Rightarrow> Some (Inl e)
         | Some (Inr (df, w2)) \<Rightarrow>
             if shape_0 df = 0 \<or> shape df = PyInt (MAX_ROWS self) then
               extract_transactions_rec self sdk os array_address start_index end_index
                 network extract_dir stack w2
             else
               (case export_address os df (py_slice array_address start_index end_index)
                       extract_dir network w2 of
                  Inl e \<Rightarrow> Some (Inl e)
                | Inr w3 \<Rightarrow> Some (Inr w3)))"

definition extract_transactions_net ::
  "FlipsideApi \<Rightarrow> 's ShroomDK \<Rightarrow> 'f os_api \<Rightarrow> string \<Rightarrow> string list \<Rightarrow> string \<Rightarrow> nat
     \<Rightarrow> ('s, 'f) world \<Rightarrow> (error + ('s, 'f) world) option" where
  "extract_transactions_net self sdk os extract_dir array_address network stack w =
     (let w1 = py_print (''Extracting transactions for network:  '' @ network) w;
          len_address = int (length array_address)
      in case batch_count len_address (MAX_ADDRESS self) of
           Inl e \<Rightarrow> Some (Inl e)
         | Inr q \<Rightarrow>
             for_loop
               (extract_transactions_net_body self sdk os extract_dir array_address network
                  stack)
               (py_range q) w1)"

subsection \<open>extract_transactions (lines 75-79)\<close>

definition extract_transactions ::
  "FlipsideApi \<Rightarrow> 's ShroomDK \<Rightarrow> 'f os_api \<Rightarrow> string \<Rightarrow> string list \<Rightarrow> nat \<Rightarrow> ('s, 'f) world
     \<Rightarrow> (error + ('s, 'f) world) option" where
  "extract_transactions self sdk os extract_dir array_address stack w =
     (let list_network = [''ethereum'', ''polygon'', ''arbitrum'', ''avalanche'', ''gnosis'',
                          ''optimism'']
      in for_loop
           (\<lambda>network. extract_transactions_net self sdk os extract_dir array_address network
                         stack)
           list_network w)"

section \<open>Notions used to state the properties\<close>

text \<open>
  The first \<open>n\<close> pages of a query, fetched one after the other from page number
  \<open>page_number\<close> on, each fetch starting in the world the one before left.
\<close>

fun fetch_pages ::
  "FlipsideApi \<Rightarrow> 's ShroomDK \<Rightarrow> string \<Rightarrow> nat \<Rightarrow> int \<Rightarrow> ('s, 'f) world \<Rightarrow> dataframe list \<times> ('s, 'f) world" where
  "fetch_pages self sdk sql 0 page_number w = ([], w)"
| "fetch_pages self sdk sql (Suc n) page_number w =
     (case execute_query_page self sdk sql page_number w of
        (df, w') \<Rightarrow>
          (case fetch_pages self sdk sql n (page_number + 1) w' of
             (dfs, w'') \<Rightarrow> (df # dfs, w'')))"

text \<open>
  The fetches from page \<open>p\<close> on stop after \<open>n\<close> full pages and one more page that
  is not full: \<open>pages\<close> are these \<open>n + 1\<close> pages, \<open>w1\<close> the world after the last.
\<close>

definition stops_after ::
  "FlipsideApi \<Rightarrow> 's ShroomDK \<Rightarrow> string \<Rightarrow> int \<Rightarrow> ('s, 'f) world \<Rightarrow> dataframe list \<Rightarrow> ('s, 'f) world \<Rightarrow> nat \<Rightarrow> bool" where
  "stops_after self sdk sql p w pages w1 n \<longleftrightarrow>
     fetch_pages self sdk sql (Suc n) p w = (pages, w1) \<and>
     (\<forall>k<n. shape_0 (pages ! k) = PAGE_SIZE self) \<and>
     shape_0 (pages ! n) \<noteq> PAGE_SIZE self"

text \<open>The networks that \<open>get_transactions\<close> knows.\<close>

definition supported_network :: "string \<Rightarrow> bool" where
  "supported_network network \<longleftrightarrow>
     network \<in> set [''ethereum'', ''polygon'', ''arbitrum'', ''avalanche'', ''gnosis'', ''optimism'']"

text \<open>
  Names for the expressions of lines 143-146: the rows of a table that belong to an
  address, and the path of the address's csv file.
\<close>

definition address_transactions :: "dataframe \<Rightarrow> string \<Rightarrow> dataframe" where
  "address_transactions df address =
     filter (\<lambda>r. from_address r = address \<or> to_address r = address) df"

definition csv_file_of :: "string \<Rightarrow> string \<Rightarrow> string \<Rightarrow> string" where
  "csv_file_of extract_dir network address =
     os_path_join (os_path_join extract_dir network) (address @ ''_tx.csv'')"

section \<open>Example inputs\<close>

definition example_row :: "string \<Rightarrow> string \<Rightarrow> string \<Rightarrow> transaction" where
  "example_row h f t =
     \<lparr>tx_hash = h, block_timestamp = ''2023-01-01 00:00:00.000'', from_address = f,
      to_address = t, gas_limit = 21000, gas_used = 21000, tx_fee = ''0.00042'',
      native_value = Some ''1.5''\<rparr>"

text \<open>
  A file system for the examples: the directories there are, and the csv files with
  their contents. Paths are taken as they are written.
\<close>

record example_fs =
  dirs :: "string set"
  csvs :: "string \<rightharpoonup> dataframe"

text \<open>\<^verbatim>\<open>posixpath.dirname\<close>.\<close>

definition dirname :: "string \<Rightarrow> string" where
  "dirname p =
     (let head = rev (dropWhile (\<lambda>c. c \<noteq> CHR ''/'') (rev p))
      in if head \<noteq> [] \<and> head \<noteq> replicate (length head) (CHR ''/'')
         then rev (dropWhile (\<lambda>c. c = CHR ''/'') (rev head))
         else head)"

text \<open>The directories above a path: its prefixes that end where a slash begins.\<close>

fun parents :: "string \<Rightarrow> string \<Rightarrow> string list" where
  "parents acc [] = []"
| "parents acc (c # cs) =
     (if c = CHR ''/'' \<and> acc \<noteq> [] \<and> last acc \<noteq> CHR ''/'' then [acc] else [])
     @ parents (acc @ [c]) cs"

text \<open>
  \<^verbatim>\<open>os.makedirs\<close> makes the directory and those above it, and raises when the path is
  there already or a file is in the way; \<^verbatim>\<open>to_csv\<close> replaces the contents of the file,
  and raises when the directory of the file is not there or the path is a directory.
\<close>

definition example_os :: "example_fs os_api" where
  "example_os =
     \<lparr>os_path_exists = (\<lambda>p f. p \<in> dirs f \<or> p \<in> dom (csvs f)),
      os_makedirs = (\<lambda>p f.
        if p \<in> dirs f then Inl (OSError p)
        else if p \<in> dom (csvs f) then Inl (OSError p)
        else if list_ex (\<lambda>a. a \<in> dom (csvs f)) (parents [] p) then Inl (OSError p)
        else Inr (f\<lparr>dirs := dirs f \<union> set (parents [] p) \<union> {p}\<rparr>)),
      to_csv = (\<lambda>df p f.
        if p \<in> dirs f then Inl (OSError p)
        else if dirname p = [] \<or> dirname p = ''/'' \<or> dirname p \<in> dirs f
        then Inr (f\<lparr>csvs := (csvs f)(p \<mapsto> df)\<rparr>)
        else Inl (OSError p))\<rparr>"

text \<open>The service state of the examples counts the calls made.\<close>

definition world_init :: "(nat, example_fs) world" where
  "world_init = \<lparr>stdout = [], files = \<lparr>dirs = {}, csvs = Map.empty\<rparr>, service = 0\<rparr>"

definition sdk_always_empty :: "nat ShroomDK" where
  "sdk_always_empty args n = (Inr [], Suc n)"

definition sdk_failing :: "nat ShroomDK" where
  "sdk_failing args n = (Inl ''QueryRunTimeoutError'', Suc n)"

text \<open>Three rows in pages of two.\<close>

definition sdk_three_rows :: "nat ShroomDK" where
  "sdk_three_rows args n =
     (if q_page_number args = 1
      then Inr [example_row ''0x01'' ''0xAAA'' ''0xBBB'', example_row ''0x02'' ''0xBBB'' ''0xDDD'']
      else if q_page_number args = 2 then Inr [example_row ''0x03'' ''0xEEE'' ''0xAAA'']
      else Inr [], Suc n)"

text \<open>Ten full pages of 100000 rows, then nothing: 1000000 rows in all.\<close>

definition sdk_capped :: "nat ShroomDK" where
  "sdk_capped args n =
     (if q_page_number args \<le> 10
      then Inr (replicate 100000 (example_row ''0x01'' ''0xAAA'' ''0xBBB''))
      else Inr [], Suc n)"

definition api_small :: FlipsideApi where
  "api_small = FlipsideApi_init ''key'' 2 4 1 2 60 True 1"

section \<open>Lemmas\<close>

subsection \<open>Slices and bisection\<close>

lemma py_slice_nonneg:
  "0 \<le> s \<Longrightarrow> 0 \<le> e \<Longrightarrow> py_slice xs s e = take (nat (e - s)) (drop (nat s) xs)"
  by (cases "s \<le> int (length xs)"; cases "e \<le> int (length xs)")
     (simp_all add: py_slice_def Let_def min_def)

lemma py_slice_append:
  assumes "0 \<le> s" "s \<le> m" "m \<le> e"
  shows "py_slice xs s m @ py_slice xs m e = py_slice xs s e"
proof -
  have d: "drop (nat m) xs = drop (nat (m - s)) (drop (nat s) xs)"
    using assms by (simp add: nat_diff_distrib)
  have e: "nat (e - s) = nat (m - s) + nat (e - m)"
    using assms by simp
  have "take (nat (m - s)) (drop (nat s) xs) @ take (nat (e - m)) (drop (nat m) xs)
        = take (nat (e - s)) (drop (nat s) xs)"
    unfolding d e by (simp add: take_add)
  then show ?thesis using assms by (simp add: py_slice_nonneg)
qed

subsection \<open>The pagination loop\<close>

lemma execute_query_while_continue:
  "df_size = PAGE_SIZE self \<Longrightarrow>
   execute_query_while self sdk sql df_size page_number list_df w =
     (case execute_query_page self sdk sql page_number w of
        (df, w') \<Rightarrow>
          execute_query_while self sdk sql (shape_0 df) (page_number + 1) (list_df @ [df]) w')"
  by (subst execute_query_while.simps) simp

lemma execute_query_while_stop:
  "df_size \<noteq> PAGE_SIZE self \<Longrightarrow>
   execute_query_while self sdk sql df_size page_number list_df w = Some (list_df, w)"
  by (subst execute_query_while.simps) simp

lemma length_fetch_pages: "length (fst (fetch_pages self sdk sql n p w)) = n"
proof (induction n arbitrary: p w)
  case 0
  then show ?case by simp
next
  case (Suc n)
  obtain df w' where pg: "execute_query_page self sdk sql p w = (df, w')"
    by (cases "execute_query_page self sdk sql p w")
  from Suc [of "p + 1" w'] show ?case
    by (cases "fetch_pages self sdk sql n (p + 1) w'") (simp add: pg)
qed

text \<open>n full pages in a row: the loop goes through them.\<close>
lemma execute_query_while_full_pages:
  assumes "fetch_pages self sdk sql n p w = (dfs, w1)"
      and "\<forall>df \<in> set dfs. shape_0 df = PAGE_SIZE self"
  shows "execute_query_while self sdk sql (PAGE_SIZE self) p acc w =
         execute_query_while self sdk sql (PAGE_SIZE self) (p + int n) (acc @ dfs) w1"
  using assms
proof (induction n arbitrary: p w acc dfs w1)
  case 0
  then show ?case by simp
next
  case (Suc n)
  obtain df w' where pg: "execute_query_page self sdk sql p w = (df, w')"
    by (cases "execute_query_page self sdk sql p w")
  obtain rest w'' where fp: "fetch_pages self sdk sql n (p + 1) w' = (rest, w'')"
    by (cases "fetch_pages self sdk sql n (p + 1) w'")
  from Suc.prems(1) pg fp have dfs: "dfs = df # rest" and w1: "w1 = w''" by auto
  from Suc.prems(2) dfs have full: "shape_0 df = PAGE_SIZE self"
    and rest_full: "\<forall>d \<in> set rest. shape_0 d = PAGE_SIZE self" by auto
  have "execute_query_while self sdk sql (PAGE_SIZE self) p acc w =
        execute_query_while self sdk sql (PAGE_SIZE self) (p + 1) (acc @ [df]) w'"
    by (simp add: execute_query_while_continue pg full)
  also have "\<dots> = execute_query_while self sdk sql (PAGE_SIZE self) (p + 1 + int n)
                     ((acc @ [df]) @ rest) w''"
    by (rule Suc.IH [OF fp rest_full])
  finally show ?case by (simp add: dfs w1 ac_simps)
qed

lemma fetch_pages_snoc:
  "fetch_pages self sdk sql (Suc n) p w =
     (case fetch_pages self sdk sql n p w of
        (dfs, w1) \<Rightarrow>
          (case execute_query_page self sdk sql (p + int n) w1 of
             (df, w2) \<Rightarrow> (dfs @ [df], w2)))"
proof (induction n arbitrary: p w)
  case 0
  then show ?case by (simp split: prod.splits)
next
  case (Suc n)
  show ?case
    apply (subst fetch_pages.simps(2))
    apply (subst Suc.IH)
    apply (simp split: prod.splits add: ac_simps)
    done
qed

text \<open>The loop returns after n full pages and one that is not full.\<close>
lemma execute_query_while_returns:
  assumes "fetch_pages self sdk sql (Suc n) p w = (pages, w1)"
      and "\<forall>k<n. shape_0 (pages ! k) = PAGE_SIZE self"
      and "shape_0 (pages ! n) \<noteq> PAGE_SIZE self"
  shows "execute_query_while self sdk sql (PAGE_SIZE self) p acc w = Some (acc @ pages, w1)"
proof -
  obtain dfs w' where fp: "fetch_pages self sdk sql n p w = (dfs, w')"
    by (cases "fetch_pages self sdk sql n p w")
  obtain df w2 where pg: "execute_query_page self sdk sql (p + int n) w' = (df, w2)"
    by (cases "execute_query_page self sdk sql (p + int n) w'")
  from assms(1) have "(dfs @ [df], w2) = (pages, w1)"
    by (simp only: fetch_pages_snoc fp pg prod.case)
  then have pages: "pages = dfs @ [df]" and w1: "w1 = w2"
    by simp_all
  have len: "length dfs = n"
    using length_fetch_pages [of self sdk sql n p w] fp by simp
  have full: "\<forall>d \<in> set dfs. shape_0 d = PAGE_SIZE self"
  proof
    fix d assume "d \<in> set dfs"
    then obtain k where "k < n" "dfs ! k = d" using len by (auto simp: in_set_conv_nth)
    with assms(2) pages len show "shape_0 d = PAGE_SIZE self"
      by (auto simp: nth_append)
  qed
  have short: "shape_0 df \<noteq> PAGE_SIZE self"
    using assms(3) pages len by (simp add: nth_append)
  have "execute_query_while self sdk sql (PAGE_SIZE self) p acc w =
        execute_query_while self sdk sql (PAGE_SIZE self) (p + int n) (acc @ dfs) w'"
    by (rule execute_query_while_full_pages [OF fp full])
  also have "\<dots> = execute_query_while self sdk sql (shape_0 df) (p + int n + 1)
                     ((acc @ dfs) @ [df]) w2"
    by (simp add: execute_query_while_continue pg)
  also have "\<dots> = Some ((acc @ dfs) @ [df], w2)"
    by (rule execute_query_while_stop [OF short])
  finally show ?thesis by (simp add: pages w1)
qed

lemma execute_query_while_sound:
  assumes "execute_query_while self sdk sql df_size p acc w = Some y"
  shows "(df_size = PAGE_SIZE self \<longrightarrow>
            (\<exists>n pages. stops_after self sdk sql p w pages (snd y) n \<and> fst y = acc @ pages)) \<and>
         (df_size \<noteq> PAGE_SIZE self \<longrightarrow> y = (acc, w))"
proof (rule execute_query_while.raw_induct
    [where P = "\<lambda>self sdk sql df_size p acc w y.
         (df_size = PAGE_SIZE self \<longrightarrow>
            (\<exists>n pages. stops_after self sdk sql p w pages (snd y) n \<and> fst y = acc @ pages)) \<and>
         (df_size \<noteq> PAGE_SIZE self \<longrightarrow> y = (acc, w))", OF _ assms], goal_cases)
  case (1 f self sdk sql df_size p acc w y)
  show ?case
  proof (cases "df_size = PAGE_SIZE self")
    case False
    with 1(2) show ?thesis by simp
  next
    case True
    obtain df w' where pg: "execute_query_page self sdk sql p w = (df, w')"
      by (cases "execute_query_page self sdk sql p w")
    from 1(2) True pg
    have call: "f self sdk sql (shape_0 df) (p + 1) (acc @ [df]) w' = Some y" by simp
    note ih = 1(1) [OF call]
    show ?thesis
    proof (cases "shape_0 df = PAGE_SIZE self")
      case False
      with ih have y: "y = (acc @ [df], w')" by simp
      have "stops_after self sdk sql p w [df] (snd y) 0"
        using False by (simp add: stops_after_def pg y)
      then show ?thesis using True y by auto
    next
      case full: True
      with ih obtain n pages where
        st: "stops_after self sdk sql (p + 1) w' pages (snd y) n" and
        y: "fst y = (acc @ [df]) @ pages" by auto
      have "stops_after self sdk sql p w (df # pages) (snd y) (Suc n)"
        using st full by (auto simp: stops_after_def pg less_Suc_eq_0_disj)
      then show ?thesis using True y by auto
    qed
  qed
qed

lemma execute_query_while_iff:
  "execute_query_while self sdk sql (PAGE_SIZE self) p [] w = Some (pages, w1) \<longleftrightarrow>
     (\<exists>n. stops_after self sdk sql p w pages w1 n)"
proof
  assume "execute_query_while self sdk sql (PAGE_SIZE self) p [] w = Some (pages, w1)"
  from execute_query_while_sound [OF this] show "\<exists>n. stops_after self sdk sql p w pages w1 n"
    by auto
next
  assume "\<exists>n. stops_after self sdk sql p w pages w1 n"
  then obtain n where "stops_after self sdk sql p w pages w1 n" ..
  then show "execute_query_while self sdk sql (PAGE_SIZE self) p [] w = Some (pages, w1)"
    using execute_query_while_returns [of self sdk sql n p w pages w1 "[]"]
    by (simp add: stops_after_def)
qed

lemma execute_query_while_nonempty:
  assumes "execute_query_while self sdk sql (PAGE_SIZE self) p [] w = Some (pages, w1)"
  shows "pages \<noteq> []"
proof -
  from assms obtain n where "stops_after self sdk sql p w pages w1 n"
    by (auto simp: execute_query_while_iff)
  then have "fst (fetch_pages self sdk sql (Suc n) p w) = pages"
    by (simp add: stops_after_def)
  with length_fetch_pages [of self sdk sql "Suc n" p w] show ?thesis by auto
qed

lemma execute_query_no_error: "execute_query self sdk sql w \<noteq> Some (Inl e)"
  by (auto simp: execute_query_def pd_concat_def split: option.splits prod.splits
           dest: execute_query_while_nonempty)

subsection \<open>get_transactions\<close>

lemma get_transactions_unsupported:
  "\<not> supported_network network \<Longrightarrow>
   get_transactions self sdk array_address network w = Some (Inl (Exception ''Network not supported''))"
  by (simp add: get_transactions_def supported_network_def)

lemma get_transactions_no_error:
  "supported_network network \<Longrightarrow> get_transactions self sdk array_address network w \<noteq> Some (Inl e)"
  by (auto simp: get_transactions_def supported_network_def execute_query_no_error)

subsection \<open>Paths\<close>

lemma os_path_join_relative:
  "take 1 b \<noteq> ''/'' \<Longrightarrow>
   os_path_join a b = (if a = [] \<or> last a = CHR ''/'' then a else a @ ''/'') @ b"
  by (simp add: os_path_join_def)

lemma csv_file_of_inj:
  assumes "take 1 a \<noteq> ''/''" "take 1 b \<noteq> ''/''"
      and "csv_file_of extract_dir network a = csv_file_of extract_dir network b"
  shows "a = b"
proof -
  have ra: "take 1 (a @ ''_tx.csv'') \<noteq> ''/''"
    using assms(1) by (cases a) simp_all
  have rb: "take 1 (b @ ''_tx.csv'') \<noteq> ''/''"
    using assms(2) by (cases b) simp_all
  from assms(3) have "a @ ''_tx.csv'' = b @ ''_tx.csv''"
    unfolding csv_file_of_def os_path_join_relative [OF ra] os_path_join_relative [OF rb]
    by (simp only: same_append_eq)
  then show ?thesis by (simp only: append_same_eq)
qed

subsection \<open>Batches\<close>

lemma batch_count_ceiling:
  assumes "0 < M"
  shows "batch_count L M = Inr \<lceil>real_of_int L / real_of_int M\<rceil>"
proof -
  have "\<lceil>real_of_int L / real_of_int M\<rceil> = - ((- L) div M)"
    by (rule ceiling_divide_eq_div)
  also have "\<dots> = (if L mod M \<noteq> 0 then L div M + 1 else L div M)"
    using assms by (simp add: zdiv_zminus1_eq_if)
  finally show ?thesis using assms by (simp add: batch_count_def Let_def)
qed

lemma upto_int_upt: "[int a..int b - 1] = map int [a..<b]"
proof (induction b)
  case 0
  then show ?case by simp
next
  case (Suc b)
  show ?case
  proof (cases "a \<le> b")
    case True
    then have "[int a..int (Suc b) - 1] = [int a..int b - 1] @ [int b]"
      using upto_rec2 [of "int a" "int b"] by simp
    with Suc True show ?thesis by simp
  next
    case False
    then show ?thesis by simp
  qed
qed

lemma py_range_nat: "py_range q = map int [0..<nat q]"
proof (cases "0 \<le> q")
  case False
  then show ?thesis by (simp add: py_range_def)
next
  case True
  then obtain k where q: "q = int k" using nonneg_int_cases by blast
  show ?thesis using upto_int_upt [of 0 k] by (simp add: py_range_def q)
qed

lemma concat_chunks:
  "concat (map (\<lambda>i. take m (drop (i * m) xs)) [0..<k]) = take (k * m) xs"
proof (induction k)
  case 0
  then show ?case by simp
next
  case (Suc k)
  have "Suc k * m = k * m + m" by simp
  then have "take (Suc k * m) xs = take (k * m) xs @ take m (drop (k * m) xs)"
    by (simp only: take_add)
  with Suc show ?case by simp
qed

lemma py_slice_batch:
  assumes "0 < M" "0 \<le> i"
  shows "py_slice xs (i * M) ((i + 1) * M) = take (nat M) (drop (nat i * nat M) xs)"
proof -
  have "(i + 1) * M - i * M = M" by (simp add: algebra_simps)
  moreover have "nat (i * M) = nat i * nat M" using assms by (simp add: nat_mult_distrib)
  moreover have "0 \<le> i * M" "0 \<le> (i + 1) * M" using assms by simp_all
  ultimately show ?thesis by (simp add: py_slice_nonneg)
qed

lemma batches_cover:
  assumes "0 < M" "batch_count (int (length xs)) M = Inr q"
  shows "concat (map (\<lambda>i. py_slice xs (i * M) ((i + 1) * M)) (py_range q)) = xs"
proof -
  obtain m where M: "M = int m" and m: "0 < m"
    using assms(1) by (metis nonneg_int_cases less_imp_le of_nat_0_less_iff)
  have q: "q = \<lceil>real (length xs) / real m\<rceil>"
    using batch_count_ceiling [OF assms(1), of "int (length xs)"] assms(2) M by simp
  have qm: "int (length xs) \<le> q * M"
  proof -
    have "real (length xs) / real m \<le> real_of_int q" unfolding q by (rule le_of_int_ceiling)
    then have "real (length xs) \<le> real_of_int q * real m"
      using m by (simp add: field_simps)
    then show ?thesis unfolding M by (metis of_int_le_iff of_int_mult of_int_of_nat_eq)
  qed
  then have q0: "0 \<le> q" using assms(1)
    by (smt (verit) mult_less_0_iff of_nat_0_le_iff)
  have len: "length xs \<le> nat q * m"
    using qm q0 M by (metis nat_int nat_mono nat_mult_distrib of_nat_0_le_iff)
  have "py_slice xs (int i * M) ((int i + 1) * M) = take m (drop (i * m) xs)" for i
    using py_slice_batch [OF assms(1), of "int i" xs] M by simp
  then have "concat (map (\<lambda>i. py_slice xs (i * M) ((i + 1) * M)) (py_range q)) =
        concat (map (\<lambda>i. take m (drop (i * m) xs)) [0..<nat q])"
    by (simp add: py_range_nat comp_def)
  also have "\<dots> = take (nat q * m) xs" by (rule concat_chunks)
  also have "\<dots> = xs" using len by simp
  finally show ?thesis .
qed

lemma py_slice_indices:
  assumes "0 \<le> s" "0 \<le> e"
  shows "py_slice xs s e = map (\<lambda>j. xs ! nat j) [s..min e (int (length xs)) - 1]"
proof -
  define a where "a = nat s"
  define b where "b = nat (min e (int (length xs)))"
  have b: "b \<le> length xs" by (simp add: b_def)
  have up: "[s..min e (int (length xs)) - 1] = map int [a..<b]"
    using upto_int_upt [of a b] assms by (simp add: a_def b_def)
  have "nat (e - s) = nat e - nat s" using assms by arith
  then have "py_slice xs s e = drop a (take (nat e) xs)"
    using assms by (simp add: py_slice_nonneg drop_take a_def)
  also have "take (nat e) xs = take b xs"
    using assms by (simp add: b_def min_def)
  also have "drop a (take b xs) = map ((!) xs) [a..<b]"
  proof (rule map_upt_eqI [symmetric])
    show "length (drop a (take b xs)) = b - a" using b by simp
  next
    fix i
    assume "i < length (drop a (take b xs))"
    then have ai: "a + i < b" by simp
    then have "a \<le> length (take b xs)" using b by simp
    then have "drop a (take b xs) ! i = take b xs ! (a + i)" by (rule nth_drop)
    also have "\<dots> = xs ! (a + i)" using ai by (rule nth_take)
    finally show "drop a (take b xs) ! i = xs ! (a + i)" .
  qed
  finally show ?thesis by (simp add: up comp_def)
qed

lemma batch_ranges_disjoint:
  fixes M :: int
  assumes "0 < M" "i < j"
  shows "{i * M ..< min ((i + 1) * M) L} \<inter> {j * M ..< min ((j + 1) * M) L} = {}"
proof -
  have "(i + 1) * M \<le> j * M" using assms by (simp add: mult_right_mono)
  then show ?thesis by auto
qed

lemma batch_ranges_union:
  fixes M :: int
  assumes "0 < M" "batch_count L M = Inr q"
  shows "(\<Union>i \<in> {0..<q}. {i * M ..< min ((i + 1) * M) L}) = {0..<L}"
proof (rule set_eqI, rule iffI)
  fix x
  assume "x \<in> (\<Union>i \<in> {0..<q}. {i * M ..< min ((i + 1) * M) L})"
  then obtain i where "0 \<le> i" "i * M \<le> x" "x < L" by auto
  moreover have "0 \<le> i * M" using \<open>0 \<le> i\<close> assms(1) by simp
  ultimately show "x \<in> {0..<L}" by simp
next
  fix x
  assume x: "x \<in> {0..<L}"
  let ?i = "x div M"
  have q: "q = (if L mod M \<noteq> 0 then L div M + 1 else L div M)"
    using assms by (simp add: batch_count_def Let_def split: if_splits)
  have i0: "0 \<le> ?i" using x assms(1) by (simp add: pos_imp_zdiv_nonneg_iff)
  have lo: "?i * M \<le> x" using assms(1)
    by (metis div_mult_mod_eq le_add_same_cancel1 pos_mod_sign)
  have hi: "x < (?i + 1) * M" using assms(1)
    by (smt (verit) div_mult_mod_eq distrib_right mult_cancel_right2 pos_mod_bound)
  have iq: "?i < q"
  proof (rule ccontr)
    assume "\<not> ?i < q"
    then have "q \<le> ?i" by simp
    then have "q * M \<le> ?i * M" using assms(1) by (simp add: mult_right_mono)
    moreover have "L \<le> q * M"
      unfolding q using assms(1)
      by (smt (verit) div_mult_mod_eq distrib_right mult_cancel_right2 pos_mod_bound mult.commute)
    ultimately show False using lo x by simp
  qed
  from i0 iq lo hi x show "x \<in> (\<Union>i \<in> {0..<q}. {i * M ..< min ((i + 1) * M) L})"
    by auto
qed

section \<open>Properties of the program\<close>

text \<open>
  C10. Bisecting a range of one address does not shrink it. For every \<open>s\<close>,
  \<open>extract_transactions_rec\<close> on \<open>[s, s + 1)\<close> has its middle at \<open>s\<close>: it first calls
  \<open>extract_transactions_between_rec\<close> on the empty range \<open>[s, s)\<close>, and then, in the
  world this call returned (if it returned, and without an exception), on the unchanged
  range \<open>[s, s + 1)\<close>. The slice of the empty range is the empty list, so the call on
  \<open>[s, s)\<close> runs \<open>get_transactions\<close> on no address; for each of the six networks
  \<open>get_transactions\<close> on no address runs \<open>execute_query\<close> on the text its builder makes of
  the empty list; \<open>get_string_address\<close> of the empty list is the empty string, and the
  text of each builder then has \<^verbatim>\<open>IN ()\<close> in both clauses.
\<close>

theorem bisect_unit_range:
  "extract_transactions_rec self sdk os array_address s (s + 1) network extract_dir
     (Suc stack) w =
     (case extract_transactions_between_rec self sdk os array_address s s network extract_dir
             stack (py_print ''Retrying with smaller query'' w) of
        None \<Rightarrow> None
      | Some (Inl x) \<Rightarrow> Some (Inl x)
      | Some (Inr w2) \<Rightarrow>
          extract_transactions_between_rec self sdk os array_address s (s + 1) network
            extract_dir stack w2) \<and>
   py_slice array_address s s = [] \<and>
   extract_transactions_between_rec self sdk os array_address s s network extract_dir
     (Suc stack) w =
     (case get_transactions self sdk [] network (py_print (extracting_line s s) w) of
        None \<Rightarrow> None
      | Some (Inl x) \<Rightarrow> Some (Inl x)
      | Some (Inr (df, w1)) \<Rightarrow>
          if shape_0 df = 0 then
            extract_transactions_rec self sdk os array_address s s network extract_dir stack
              (py_print ''Retrying with smaller query'' w1)
          else
            (case export_address os df [] extract_dir network w1 of
               Inl x \<Rightarrow> Some (Inl x)
             | Inr w2 \<Rightarrow> Some (Inr w2))) \<and>
   get_transactions self sdk [] ''ethereum'' w =
     execute_query self sdk (get_eth_transactions_sql_query [] 0) w \<and>
   get_transactions self sdk [] ''polygon'' w =
     execute_query self sdk (get_polygon_transactions_sql_query [] 0) w \<and>
   get_transactions self sdk [] ''arbitrum'' w =
     execute_query self sdk (get_arbitrum_transactions_sql_query [] 0) w \<and>
   get_transactions self sdk [] ''avalanche'' w =
     execute_query self sdk (get_avalanche_transactions_sql_query [] 0) w \<and>
   get_transactions self sdk [] ''gnosis'' w =
     execute_query self sdk (get_gnosis_transactions_sql_query [] 0) w \<and>
   get_transactions self sdk [] ''optimism'' w =
     execute_query self sdk (get_optimism_transactions_sql_query [] 0) w \<and>
   get_string_address [] = [] \<and>
   get_eth_transactions_sql_query [] 0 =
     fstring_lines
       [''                SELECT TX_HASH,'',
        ''                BLOCK_TIMESTAMP,'',
        ''                FROM_ADDRESS,'',
        ''                TO_ADDRESS,'',
        ''                GAS_LIMIT,'',
        ''                GAS_USED,'',
        ''                TX_FEE,'',
        ''                ETH_VALUE'',
        ''                FROM ethereum.core.fact_transactions'',
        ''                WHERE FROM_ADDRESS IN ()'',
        ''                OR TO_ADDRESS IN ()'',
        ''                ;'']
       ''                '' \<and>
   get_polygon_transactions_sql_query [] 0 =
     fstring_lines
       [''                SELECT TX_HASH,'',
        ''                BLOCK_TIMESTAMP,'',
        ''                FROM_ADDRESS,'',
        ''                TO_ADDRESS,'',
        ''                GAS_LIMIT,'',
        ''                GAS_USED,'',
        ''                TX_FEE,'',
        ''                MATIC_VALUE'',
        ''                FROM polygon.core.fact_transactions'',
        ''                WHERE FROM_ADDRESS IN ()'',
        ''                OR TO_ADDRESS IN ()'',
        ''                ;'']
       ''                '' \<and>
   get_arbitrum_transactions_sql_query [] 0 =
     fstring_lines
       [''                SELECT TX_HASH,'',
        ''                BLOCK_TIMESTAMP,'',
        ''                FROM_ADDRESS,'',
        ''                TO_ADDRESS,'',
        ''                GAS_LIMIT,'',
        ''                GAS_USED,'',
        ''                TX_FEE,'',
        ''                ETH_VALUE'',
        ''                FROM arbitrum.core.fact_transactions'',
        ''                WHERE FROM_ADDRESS IN ()'',
        ''                OR TO_ADDRESS IN ()'',
        ''                ;'']
       ''                '' \<and>
   get_avalanche_transactions_sql_query [] 0 =
     fstring_lines
       [''                SELECT TX_HASH,'',
        ''                BLOCK_TIMESTAMP,'',
        ''                FROM_ADDRESS,'',
        ''                TO_ADDRESS,'',
        ''                GAS_LIMIT,'',
        ''                GAS_USED,'',
        ''                TX_FEE,'',
        ''                AVAX_VALUE'',
        ''                FROM avalanche.core.fact_transactions'',
        ''                WHERE FROM_ADDRESS IN ()'',
        ''                OR TO_ADDRESS IN ()'',
        ''                ;'']
       ''                '' \<and>
   get_gnosis_transactions_sql_query [] 0 =
     fstring_lines
       [''                    SELECT TX_HASH,'',
        ''                    BLOCK_TIMESTAMP,'',
        ''                    FROM_ADDRESS,'',
        ''                    TO_ADDRESS,'',
        ''                    GAS_LIMIT,'',
        ''                    GAS_USED,'',
        ''                    TX_FEE'',
        ''                    FROM gnosis.core.fact_transactions'',
        ''                    WHERE FROM_ADDRESS IN ()'',
        ''                    OR TO_ADDRESS IN ()'',
        ''                    ;'']
       ''                    '' \<and>
   get_optimism_transactions_sql_query [] 0 =
     fstring_lines
       [''                    SELECT TX_HASH,'',
        ''                    BLOCK_TIMESTAMP,'',
        ''                    FROM_ADDRESS,'',
        ''                    TO_ADDRESS,'',
        ''                    GAS_LIMIT,'',
        ''                    GAS_USED,'',
        ''                    TX_FEE,'',
        ''                    ETH_VALUE'',
        ''                    FROM optimism.core.fact_transactions'',
        ''                    WHERE FROM_ADDRESS IN ()'',
        ''                    OR TO_ADDRESS IN ()'',
        ''                    ;'']
       ''                    ''"
proof -
  have mid: "(s + (s + 1)) div 2 = s" by simp
  have a: "extract_transactions_rec self sdk os array_address s (s + 1) network extract_dir
       (Suc stack) w =
       (case extract_transactions_between_rec self sdk os array_address s s network extract_dir
               stack (py_print ''Retrying with smaller query'' w) of
          None \<Rightarrow> None
        | Some (Inl x) \<Rightarrow> Some (Inl x)
        | Some (Inr w2) \<Rightarrow>
            extract_transactions_between_rec self sdk os array_address s (s + 1) network
              extract_dir stack w2)"
    by (simp only: extract_transactions_rec.simps Let_def mid)
  have b: "py_slice array_address s s = []"
    by (simp add: py_slice_def Let_def)
  have c: "extract_transactions_between_rec self sdk os array_address s s network extract_dir
       (Suc stack) w =
       (case get_transactions self sdk [] network (py_print (extracting_line s s) w) of
          None \<Rightarrow> None
        | Some (Inl x) \<Rightarrow> Some (Inl x)
        | Some (Inr (df, w1)) \<Rightarrow>
            if shape_0 df = 0 then
              extract_transactions_rec self sdk os array_address s s network extract_dir stack
                (py_print ''Retrying with smaller query'' w1)
            else
              (case export_address os df [] extract_dir network w1 of
                 Inl x \<Rightarrow> Some (Inl x)
               | Inr w2 \<Rightarrow> Some (Inr w2)))"
    by (simp only: extract_transactions_between_rec.simps b)
  have d: "get_string_address [] = []"
    by (simp add: get_string_address_def)
  have g1: "get_transactions self sdk [] ''ethereum'' w =
       execute_query self sdk (get_eth_transactions_sql_query [] 0) w"
    by (simp add: get_transactions_def)
  have g2: "get_transactions self sdk [] ''polygon'' w =
       execute_query self sdk (get_polygon_transactions_sql_query [] 0) w"
    by (simp add: get_transactions_def)
  have g3: "get_transactions self sdk [] ''arbitrum'' w =
       execute_query self sdk (get_arbitrum_transactions_sql_query [] 0) w"
    by (simp add: get_transactions_def)
  have g4: "get_transactions self sdk [] ''avalanche'' w =
       execute_query self sdk (get_avalanche_transactions_sql_query [] 0) w"
    by (simp add: get_transactions_def)
  have g5: "get_transactions self sdk [] ''gnosis'' w =
       execute_query self sdk (get_gnosis_transactions_sql_query [] 0) w"
    by (simp add: get_transactions_def)
  have g6: "get_transactions self sdk [] ''optimism'' w =
       execute_query self sdk (get_optimism_transactions_sql_query [] 0) w"
    by (simp add: get_transactions_def)
  have q1: "get_eth_transactions_sql_query [] 0 =
       fstring_lines
         [''                SELECT TX_HASH,'',
          ''                BLOCK_TIMESTAMP,'',
          ''                FROM_ADDRESS,'',
          ''                TO_ADDRESS,'',
          ''                GAS_LIMIT,'',
          ''                GAS_USED,'',
          ''                TX_FEE,'',
          ''                ETH_VALUE'',
          ''                FROM ethereum.core.fact_transactions'',
          ''                WHERE FROM_ADDRESS IN ()'',
          ''                OR TO_ADDRESS IN ()'',
          ''                ;'']
         ''                ''"
    by (simp add: get_eth_transactions_sql_query_def d)
  have q2: "get_polygon_transactions_sql_query [] 0 =
       fstring_lines
         [''                SELECT TX_HASH,'',
          ''                BLOCK_TIMESTAMP,'',
          ''                FROM_ADDRESS,'',
          ''                TO_ADDRESS,'',
          ''                GAS_LIMIT,'',
          ''                GAS_USED,'',
          ''                TX_FEE,'',
          ''                MATIC_VALUE'',
          ''                FROM polygon.core.fact_transactions'',
          ''                WHERE FROM_ADDRESS IN ()'',
          ''                OR TO_ADDRESS IN ()'',
          ''                ;'']
         ''                ''"
    by (simp add: get_polygon_transactions_sql_query_def d)
  have q3: "get_arbitrum_transactions_sql_query [] 0 =
       fstring_lines
         [''                SELECT TX_HASH,'',
          ''                BLOCK_TIMESTAMP,'',
          ''                FROM_ADDRESS,'',
          ''                TO_ADDRESS,'',
          ''                GAS_LIMIT,'',
          ''                GAS_USED,'',
          ''                TX_FEE,'',
          ''                ETH_VALUE'',
          ''                FROM arbitrum.core.fact_transactions'',
          ''                WHERE FROM_ADDRESS IN ()'',
          ''                OR TO_ADDRESS IN ()'',
          ''                ;'']
         ''                ''"
    by (simp add: get_arbitrum_transactions_sql_query_def d)
  have q4: "get_avalanche_transactions_sql_query [] 0 =
       fstring_lines
         [''                SELECT TX_HASH,'',
          ''                BLOCK_TIMESTAMP,'',
          ''                FROM_ADDRESS,'',
          ''                TO_ADDRESS,'',
          ''                GAS_LIMIT,'',
          ''                GAS_USED,'',
          ''                TX_FEE,'',
          ''                AVAX_VALUE'',
          ''                FROM avalanche.core.fact_transactions'',
          ''                WHERE FROM_ADDRESS IN ()'',
          ''                OR TO_ADDRESS IN ()'',
          ''                ;'']
         ''                ''"
    by (simp add: get_avalanche_transactions_sql_query_def d)
  have q5: "get_gnosis_transactions_sql_query [] 0 =
       fstring_lines
         [''                    SELECT TX_HASH,'',
          ''                    BLOCK_TIMESTAMP,'',
          ''                    FROM_ADDRESS,'',
          ''                    TO_ADDRESS,'',
          ''                    GAS_LIMIT,'',
          ''                    GAS_USED,'',
          ''                    TX_FEE'',
          ''                    FROM gnosis.core.fact_transactions'',
          ''                    WHERE FROM_ADDRESS IN ()'',
          ''                    OR TO_ADDRESS IN ()'',
          ''                    ;'']
         ''                    ''"
    by (simp add: get_gnosis_transactions_sql_query_def d)
  have q6: "get_optimism_transactions_sql_query [] 0 =
       fstring_lines
         [''                    SELECT TX_HASH,'',
          ''                    BLOCK_TIMESTAMP,'',
          ''                    FROM_ADDRESS,'',
          ''                    TO_ADDRESS,'',
          ''                    GAS_LIMIT,'',
          ''                    GAS_USED,'',
          ''                    TX_FEE,'',
          ''                    ETH_VALUE'',
          ''                    FROM optimism.core.fact_transactions'',
          ''                    WHERE FROM_ADDRESS IN ()'',
          ''                    OR TO_ADDRESS IN ()'',
          ''                    ;'']
         ''                    ''"
    by (simp add: get_optimism_transactions_sql_query_def d)
  from a b c g1 g2 g3 g4 g5 g6 d q1 q2 q3 q4 q5 q6 show ?thesis by (intro conjI)
qed

text \<open>
  C6. For every range \<open>[s, e)\<close>, \<open>extract_transactions_rec\<close> computes the middle
  \<open>(s + e) div 2\<close> and runs \<open>extract_transactions_between_rec\<close> on \<open>[s, mid)\<close> first, and
  then on \<open>[mid, e)\<close>, in the world that the left half returned: the right half is not
  started when the left half does not return or raises. (With no stack left the call
  itself raises.) The two index intervals are disjoint and their union is \<open>[s, e)\<close>; for
  \<open>0 \<le> s \<le> e\<close>, the ranges that reach this function, the two address slices
  concatenate to the slice of the whole range.
\<close>

theorem range_splitter_bisects:
  "extract_transactions_rec self sdk os array_address s e network extract_dir (Suc stack) w =
     (case extract_transactions_between_rec self sdk os array_address s ((s + e) div 2)
             network extract_dir stack (py_print ''Retrying with smaller query'' w) of
        None \<Rightarrow> None
      | Some (Inl x) \<Rightarrow> Some (Inl x)
      | Some (Inr w2) \<Rightarrow>
          extract_transactions_between_rec self sdk os array_address ((s + e) div 2) e
            network extract_dir stack w2) \<and>
   extract_transactions_rec self sdk os array_address s e network extract_dir 0 w =
     Some (Inl RecursionError) \<and>
   {s..<(s + e) div 2} \<union> {(s + e) div 2..<e} = {s..<e} \<and>
   {s..<(s + e) div 2} \<inter> {(s + e) div 2..<e} = {} \<and>
   (0 \<le> s \<and> s \<le> e \<longrightarrow>
      py_slice array_address s ((s + e) div 2) @ py_slice array_address ((s + e) div 2) e =
      py_slice array_address s e)"
proof -
  have a: "extract_transactions_rec self sdk os array_address s e network extract_dir
             (Suc stack) w =
     (case extract_transactions_between_rec self sdk os array_address s ((s + e) div 2)
             network extract_dir stack (py_print ''Retrying with smaller query'' w) of
        None \<Rightarrow> None
      | Some (Inl x) \<Rightarrow> Some (Inl x)
      | Some (Inr w2) \<Rightarrow>
          extract_transactions_between_rec self sdk os array_address ((s + e) div 2) e
            network extract_dir stack w2)"
    by (simp only: extract_transactions_rec.simps Let_def)
  have a0: "extract_transactions_rec self sdk os array_address s e network extract_dir 0 w =
     Some (Inl RecursionError)"
    by simp
  have b: "{s..<(s + e) div 2} \<union> {(s + e) div 2..<e} = {s..<e}" by auto
  have c: "{s..<(s + e) div 2} \<inter> {(s + e) div 2..<e} = {}" by auto
  have d: "0 \<le> s \<and> s \<le> e \<longrightarrow>
      py_slice array_address s ((s + e) div 2) @ py_slice array_address ((s + e) div 2) e =
      py_slice array_address s e"
  proof
    assume h: "0 \<le> s \<and> s \<le> e"
    then have "s \<le> (s + e) div 2" "(s + e) div 2 \<le> e" by auto
    with h show "py_slice array_address s ((s + e) div 2) @
                 py_slice array_address ((s + e) div 2) e = py_slice array_address s e"
      by (simp add: py_slice_append)
  qed
  from a a0 b c d show ?thesis by (intro conjI)
qed

theorem range_splitter_bisects_witness:
  "(0::int) \<le> 0 \<and> (0::int) \<le> 3 \<and> (0 + 3) div 2 = (1::int) \<and>
   py_slice [''0xAAA'', ''0xBBB'', ''0xCCC''] 0 1 = [''0xAAA''] \<and>
   py_slice [''0xAAA'', ''0xBBB'', ''0xCCC''] 1 3 = [''0xBBB'', ''0xCCC''] \<and>
   py_slice [''0xAAA'', ''0xBBB'', ''0xCCC''] 0 ((0 + 3) div 2) @
     py_slice [''0xAAA'', ''0xBBB'', ''0xCCC''] ((0 + 3) div 2) 3 =
     py_slice [''0xAAA'', ''0xBBB'', ''0xCCC''] 0 3"
proof -
  have h: "(0::int) \<le> 0 \<and> (0::int) \<le> 3" by simp
  have sl: "py_slice [''0xAAA'', ''0xBBB'', ''0xCCC''] 0 1 = [''0xAAA'']"
       "py_slice [''0xAAA'', ''0xBBB'', ''0xCCC''] 1 3 = [''0xBBB'', ''0xCCC'']"
    by (simp_all add: py_slice_def Let_def)
  from range_splitter_bisects
         [of api_small sdk_always_empty example_os "[''0xAAA'', ''0xBBB'', ''0xCCC'']" 0 3
             "''ethereum''" "''out''" 999 world_init] h
  have "py_slice [''0xAAA'', ''0xBBB'', ''0xCCC''] 0 ((0 + 3) div 2) @
     py_slice [''0xAAA'', ''0xBBB'', ''0xCCC''] ((0 + 3) div 2) 3 =
     py_slice [''0xAAA'', ''0xBBB'', ''0xCCC''] 0 3"
    by blast
  with h sl show ?thesis by simp
qed

text \<open>
  C4. \<open>execute_query_page\<close> has no exception among its results: it returns a table and
  a world, whatever the client does. When the client raises \<open>e\<close>, the function prints
  \<open>e\<close> and then the query text, and returns the empty table; when the client returns
  records, the function returns them as the table and prints nothing. In both cases the
  service moves to its new state and the file system is untouched.
\<close>

theorem execute_query_page_never_raises:
  "(\<forall>e s'. sdk \<lparr>q_sql = sql, q_page_size = PAGE_SIZE self, q_page_number = page_number,
                  q_timeout_minutes = TIMEOUT_MINUTES self, q_ttl_minutes = TTL_MINUTES self,
                  q_cached = CACHED self,
                  q_retry_interval_seconds = RETRY_INTERVAL_SECONDS self\<rparr> (service w)
             = (Inl e, s') \<longrightarrow>
      execute_query_page self sdk sql page_number w =
        ([], w\<lparr>stdout := stdout w @ [e, sql], service := s'\<rparr>)) \<and>
   (\<forall>records s'. sdk \<lparr>q_sql = sql, q_page_size = PAGE_SIZE self, q_page_number = page_number,
                  q_timeout_minutes = TIMEOUT_MINUTES self, q_ttl_minutes = TTL_MINUTES self,
                  q_cached = CACHED self,
                  q_retry_interval_seconds = RETRY_INTERVAL_SECONDS self\<rparr> (service w)
             = (Inr records, s') \<longrightarrow>
      execute_query_page self sdk sql page_number w = (records, w\<lparr>service := s'\<rparr>))"
  by (simp add: execute_query_page_def py_print_def)

theorem execute_query_page_never_raises_witness:
  "sdk_failing \<lparr>q_sql = ''SELECT 1'', q_page_size = PAGE_SIZE api_small, q_page_number = 1,
                 q_timeout_minutes = TIMEOUT_MINUTES api_small,
                 q_ttl_minutes = TTL_MINUTES api_small, q_cached = CACHED api_small,
                 q_retry_interval_seconds = RETRY_INTERVAL_SECONDS api_small\<rparr>
       (service world_init) = (Inl ''QueryRunTimeoutError'', 1) \<and>
   execute_query_page api_small sdk_failing ''SELECT 1'' 1 world_init =
     ([], \<lparr>stdout = [''QueryRunTimeoutError'', ''SELECT 1''],
           files = \<lparr>dirs = {}, csvs = Map.empty\<rparr>, service = 1\<rparr>)"
proof -
  have h: "sdk_failing \<lparr>q_sql = ''SELECT 1'', q_page_size = PAGE_SIZE api_small, q_page_number = 1,
                 q_timeout_minutes = TIMEOUT_MINUTES api_small,
                 q_ttl_minutes = TTL_MINUTES api_small, q_cached = CACHED api_small,
                 q_retry_interval_seconds = RETRY_INTERVAL_SECONDS api_small\<rparr>
       (service world_init) = (Inl ''QueryRunTimeoutError'', 1)"
    by (simp add: sdk_failing_def world_init_def)
  from execute_query_page_never_raises [of sdk_failing "''SELECT 1''" api_small 1 world_init] h
  have "execute_query_page api_small sdk_failing ''SELECT 1'' 1 world_init =
        ([], world_init\<lparr>stdout := stdout world_init @ [''QueryRunTimeoutError'', ''SELECT 1''],
                        service := 1\<rparr>)"
    by blast
  with h show ?thesis by (simp add: world_init_def)
qed

text \<open>
  C9. The claim says that an info type other than \<^verbatim>\<open>label\<close> and \<^verbatim>\<open>tag\<close> raises the
  invalid-info-type exception. Line 319 builds \<^verbatim>\<open>Exception("Invalid info type")\<close> without
  raising it; the function goes on, and fails at line 327 on the unbound local
  \<open>table_name\<close>. At the info type \<^verbatim>\<open>nft\<close> the exception that reaches the caller is an
  \<^verbatim>\<open>UnboundLocalError\<close>, not the one the code builds.
\<close>

theorem invalid_info_type_unbound_local:
  "get_cross_chain_info_sql_query [''0xabc''] ''nft'' 0 = Inl (UnboundLocalError ''table_name'')"
  by (simp add: get_cross_chain_info_sql_query_def)

lemma PAGE_SIZE_default: "PAGE_SIZE (FlipsideApi_default k) = 100000"
  by (simp add: FlipsideApi_default_def FlipsideApi_init_def)

lemma MAX_ROWS_default: "MAX_ROWS (FlipsideApi_default k) = 1000000"
  by (simp add: FlipsideApi_default_def FlipsideApi_init_def)

lemma execute_query_page_capped:
  "execute_query_page (FlipsideApi_default k) sdk_capped sql p w =
     (if p \<le> 10 then replicate 100000 (example_row ''0x01'' ''0xAAA'' ''0xBBB'') else [],
      w\<lparr>service := Suc (service w)\<rparr>)"
  by (simp add: execute_query_page_def sdk_capped_def)

lemma execute_query_while_capped:
  fixes w :: "(nat, example_fs) world"
  defines "page \<equiv> replicate 100000 (example_row ''0x01'' ''0xAAA'' ''0xBBB'')"
  shows "execute_query_while (FlipsideApi_default k) sdk_capped sql
       (PAGE_SIZE (FlipsideApi_default k)) 1 [] w =
     Some ([page, page, page, page, page, page, page, page, page, page, []],
           w\<lparr>service := service w + 11\<rparr>)"
proof -
  let ?self = "FlipsideApi_default k"
  have full: "shape_0 page = PAGE_SIZE ?self"
    by (simp add: shape_0_def PAGE_SIZE_default page_def)
  have short: "shape_0 [] \<noteq> PAGE_SIZE ?self"
    by (simp add: shape_0_def PAGE_SIZE_default)
  have step: "execute_query_while ?self sdk_capped sql (PAGE_SIZE ?self) p acc v =
      execute_query_while ?self sdk_capped sql (PAGE_SIZE ?self) (p + 1) (acc @ [page])
        (v\<lparr>service := Suc (service v)\<rparr>)" if "p \<le> 10" for p acc and v :: "(nat, example_fs) world"
    using that
    by (subst execute_query_while_continue)
       (simp_all only: execute_query_page_capped page_def [symmetric] full if_True prod.case)
  have last: "execute_query_while ?self sdk_capped sql (PAGE_SIZE ?self) 11 acc v =
      Some (acc @ [[]], v\<lparr>service := Suc (service v)\<rparr>)" for acc and v :: "(nat, example_fs) world"
  proof -
    have "\<not> (11::int) \<le> 10" by simp
    then have "execute_query_while ?self sdk_capped sql (PAGE_SIZE ?self) 11 acc v =
          execute_query_while ?self sdk_capped sql (shape_0 []) (11 + 1) (acc @ [[]])
            (v\<lparr>service := Suc (service v)\<rparr>)"
      by (subst execute_query_while_continue)
         (simp_all only: execute_query_page_capped if_False prod.case)
    also have "\<dots> = Some (acc @ [[]], v\<lparr>service := Suc (service v)\<rparr>)"
      by (rule execute_query_while_stop [OF short])
    finally show ?thesis .
  qed
  have svc: "Suc (Suc (Suc (Suc (Suc (Suc (Suc (Suc (Suc (Suc (Suc (service w)))))))))))
             = service w + 11" by simp
  have "execute_query_while ?self sdk_capped sql (PAGE_SIZE ?self) 1 [] w =
        Some ([page, page, page, page, page, page, page, page, page, page, []],
       w\<lparr>service := Suc (Suc (Suc (Suc (Suc (Suc (Suc (Suc (Suc (Suc (Suc (service w)))))))))))\<rparr>)"
    by (simp add: step last)
  then show ?thesis by (simp only: svc)
qed

lemma execute_query_capped:
  fixes w :: "(nat, example_fs) world"
  shows "execute_query (FlipsideApi_default k) sdk_capped sql w =
     Some (Inr (replicate 1000000 (example_row ''0x01'' ''0xAAA'' ''0xBBB''),
                py_print truncation_warning (w\<lparr>service := service w + 11\<rparr>)))"
proof -
  define page where "page = replicate 100000 (example_row ''0x01'' ''0xAAA'' ''0xBBB'')"
  have cat: "concat [page, page, page, page, page, page, page, page, page, page, []] =
             replicate 1000000 (example_row ''0x01'' ''0xAAA'' ''0xBBB'')"
    by (simp add: page_def replicate_add [symmetric])
  have len: "shape_0 (replicate 1000000 (example_row ''0x01'' ''0xAAA'' ''0xBBB'')) =
             MAX_ROWS (FlipsideApi_default k)"
    by (simp add: shape_0_def MAX_ROWS_default)
  have "pd_concat [page, page, page, page, page, page, page, page, page, page, []] =
        Inr (replicate 1000000 (example_row ''0x01'' ''0xAAA'' ''0xBBB''))"
    unfolding pd_concat_def cat by simp
  then show ?thesis
    unfolding execute_query_def execute_query_while_capped page_def [symmetric]
    by (simp add: len)
qed

text \<open>
  C8. Whenever \<open>execute_query\<close> returns a table, the table is the concatenation of the
  pages the loop fetched, and the world returned is the world after the loop with the
  warning line printed at the end exactly when the row count of the table equals
  \<open>MAX_ROWS\<close>; for any other count, so for every count below the cap, the world is the one
  the loop left and nothing is printed after it. \<open>MAX_ROWS\<close> is 1000000 for every object
  the constructor builds.
\<close>

theorem truncation_warning_iff_cap:
  "(execute_query self sdk sql w = Some (Inr (df, w')) \<longrightarrow>
      (\<exists>pages w1.
         execute_query_while self sdk sql (PAGE_SIZE self) 1 [] w = Some (pages, w1) \<and>
         df = concat pages \<and>
         (shape_0 df = MAX_ROWS self \<longrightarrow>
            w' = py_print truncation_warning w1 \<and>
            stdout w' = stdout w1 @ [truncation_warning]) \<and>
         (shape_0 df \<noteq> MAX_ROWS self \<longrightarrow> w' = w1))) \<and>
   MAX_ROWS (FlipsideApi_init key page_size timeout_minutes page_number max_address ttl cached
               retry_interval) = 1000000"
  by (auto simp: execute_query_def pd_concat_def py_print_def FlipsideApi_init_def
           split: option.splits prod.splits if_splits)

theorem truncation_warning_iff_cap_witness:
  "execute_query (FlipsideApi_default ''key'') sdk_capped ''SELECT 1'' world_init =
     Some (Inr (replicate 1000000 (example_row ''0x01'' ''0xAAA'' ''0xBBB''),
                \<lparr>stdout = [truncation_warning], files = \<lparr>dirs = {}, csvs = Map.empty\<rparr>,
                 service = 11\<rparr>)) \<and>
   shape_0 (replicate 1000000 (example_row ''0x01'' ''0xAAA'' ''0xBBB'')) =
     MAX_ROWS (FlipsideApi_default ''key'') \<and>
   (\<exists>pages w1.
      execute_query_while (FlipsideApi_default ''key'') sdk_capped ''SELECT 1''
        (PAGE_SIZE (FlipsideApi_default ''key'')) 1 [] world_init = Some (pages, w1) \<and>
      stdout w1 = [] \<and>
      \<lparr>stdout = [truncation_warning], files = \<lparr>dirs = {}, csvs = Map.empty\<rparr>,
       service = 11\<rparr> = py_print truncation_warning w1)"
proof -
  let ?df = "replicate 1000000 (example_row ''0x01'' ''0xAAA'' ''0xBBB'')"
  let ?w' = "\<lparr>stdout = [truncation_warning], files = \<lparr>dirs = {}, csvs = Map.empty\<rparr>,
              service = (11::nat)\<rparr>"
  have run: "execute_query (FlipsideApi_default ''key'') sdk_capped ''SELECT 1'' world_init =
             Some (Inr (?df, ?w'))"
    by (simp add: execute_query_capped world_init_def py_print_def)
  have cap: "shape_0 ?df = MAX_ROWS (FlipsideApi_default ''key'')"
    by (simp add: shape_0_def MAX_ROWS_default)
  from truncation_warning_iff_cap
         [of "FlipsideApi_default ''key''" sdk_capped "''SELECT 1''" world_init ?df ?w'] run cap
  obtain pages w1 where
    loop: "execute_query_while (FlipsideApi_default ''key'') sdk_capped ''SELECT 1''
        (PAGE_SIZE (FlipsideApi_default ''key'')) 1 [] world_init = Some (pages, w1)" and
    w': "?w' = py_print truncation_warning w1" and
    out: "stdout ?w' = stdout w1 @ [truncation_warning]"
    by blast
  from out have "stdout w1 = []" by simp
  with loop w' have "\<exists>pages w1.
      execute_query_while (FlipsideApi_default ''key'') sdk_capped ''SELECT 1''
        (PAGE_SIZE (FlipsideApi_default ''key'')) 1 [] world_init = Some (pages, w1) \<and>
      stdout w1 = [] \<and> ?w' = py_print truncation_warning w1"
    by blast
  with run cap show ?thesis by (intro conjI)
qed

text \<open>
  C3. The loop of \<open>execute_query\<close> fetches page 1, 2, 3, ... (\<open>fetch_pages\<close> from page
  number 1, each page in the world the page before left). It returns exactly when,
  for some \<open>n\<close>, the first \<open>n\<close> pages have \<open>PAGE_SIZE\<close> rows each and page \<open>n + 1\<close> has
  another number of rows (fewer, zero included); it then returns these \<open>n + 1\<close> pages in
  the order fetched, and \<open>execute_query\<close> returns their concatenation, not sorted again.
  When no such \<open>n\<close> exists, every page being full, the loop never returns.
\<close>

theorem paginator_pages:
  "(execute_query_while self sdk sql (PAGE_SIZE self) 1 [] w = Some (pages, w1) \<longleftrightarrow>
      (\<exists>n. stops_after self sdk sql 1 w pages w1 n)) \<and>
   (stops_after self sdk sql 1 w pages w1 n \<longrightarrow>
      execute_query self sdk sql w =
        Some (Inr (concat pages,
                   if shape_0 (concat pages) = MAX_ROWS self
                   then py_print truncation_warning w1 else w1))) \<and>
   (execute_query self sdk sql w = None \<longleftrightarrow>
      (\<forall>ps v m. \<not> stops_after self sdk sql 1 w ps v m))"
proof (intro conjI)
  show "execute_query_while self sdk sql (PAGE_SIZE self) 1 [] w = Some (pages, w1) \<longleftrightarrow>
      (\<exists>n. stops_after self sdk sql 1 w pages w1 n)"
    by (rule execute_query_while_iff)
next
  show "stops_after self sdk sql 1 w pages w1 n \<longrightarrow>
      execute_query self sdk sql w =
        Some (Inr (concat pages,
                   if shape_0 (concat pages) = MAX_ROWS self
                   then py_print truncation_warning w1 else w1))"
  proof
    assume st: "stops_after self sdk sql 1 w pages w1 n"
    then have run: "execute_query_while self sdk sql (PAGE_SIZE self) 1 [] w = Some (pages, w1)"
      by (auto simp: execute_query_while_iff)
    then have "pages \<noteq> []" by (rule execute_query_while_nonempty)
    with run show "execute_query self sdk sql w =
        Some (Inr (concat pages,
                   if shape_0 (concat pages) = MAX_ROWS self
                   then py_print truncation_warning w1 else w1))"
      by (simp add: execute_query_def pd_concat_def)
  qed
next
  have "execute_query self sdk sql w = None \<longleftrightarrow>
        execute_query_while self sdk sql (PAGE_SIZE self) 1 [] w = None"
    by (simp add: execute_query_def split: option.splits prod.splits sum.splits)
  also have "\<dots> \<longleftrightarrow> (\<forall>ps v. execute_query_while self sdk sql (PAGE_SIZE self) 1 [] w \<noteq> Some (ps, v))"
    by (cases "execute_query_while self sdk sql (PAGE_SIZE self) 1 [] w") auto
  also have "\<dots> \<longleftrightarrow> (\<forall>ps v m. \<not> stops_after self sdk sql 1 w ps v m)"
    by (simp add: execute_query_while_iff)
  finally show "execute_query self sdk sql w = None \<longleftrightarrow>
      (\<forall>ps v m. \<not> stops_after self sdk sql 1 w ps v m)" .
qed

theorem paginator_pages_witness:
  "stops_after api_small sdk_three_rows ''SELECT 1'' 1 world_init
     [[example_row ''0x01'' ''0xAAA'' ''0xBBB'', example_row ''0x02'' ''0xBBB'' ''0xDDD''],
      [example_row ''0x03'' ''0xEEE'' ''0xAAA'']]
     (world_init\<lparr>service := 2\<rparr>) (Suc 0) \<and>
   execute_query api_small sdk_three_rows ''SELECT 1'' world_init =
     Some (Inr ([example_row ''0x01'' ''0xAAA'' ''0xBBB'', example_row ''0x02'' ''0xBBB'' ''0xDDD'',
                 example_row ''0x03'' ''0xEEE'' ''0xAAA''],
                world_init\<lparr>service := 2\<rparr>))"
proof -
  let ?pages = "[[example_row ''0x01'' ''0xAAA'' ''0xBBB'', example_row ''0x02'' ''0xBBB'' ''0xDDD''],
      [example_row ''0x03'' ''0xEEE'' ''0xAAA'']]"
  have st: "stops_after api_small sdk_three_rows ''SELECT 1'' 1 world_init ?pages
              (world_init\<lparr>service := 2\<rparr>) (Suc 0)"
    by (simp add: stops_after_def execute_query_page_def sdk_three_rows_def api_small_def
          FlipsideApi_init_def world_init_def shape_0_def)
  from paginator_pages [of api_small sdk_three_rows "''SELECT 1''" world_init ?pages
         "world_init\<lparr>service := 2\<rparr>" "Suc 0"] st
  have "execute_query api_small sdk_three_rows ''SELECT 1'' world_init =
        Some (Inr (concat ?pages,
                   if shape_0 (concat ?pages) = MAX_ROWS api_small
                   then py_print truncation_warning (world_init\<lparr>service := 2\<rparr>)
                   else world_init\<lparr>service := 2\<rparr>))"
    by blast
  with st show ?thesis
    by (simp add: shape_0_def api_small_def FlipsideApi_init_def)
qed

lemma export_address_Nil: "export_address os df [] extract_dir network w = Inr w"
  by (simp add: export_address_def)

lemma always_empty_supported:
  assumes "\<forall>v r. get_transactions self sdk slice network (v :: ('s, 'f) world) = Some r \<longrightarrow>
                 (\<exists>v'. r = Inr ([], v'))"
  shows "supported_network network"
proof (rule ccontr)
  assume "\<not> supported_network network"
  from get_transactions_unsupported [OF this, of self sdk slice "undefined :: ('s, 'f) world"] assms
  show False by auto
qed

text \<open>
  The retry on \<open>[s, s + 1)\<close> when the query of its slice always comes back empty. By
  induction on the stack that is left: on \<open>[s, s + 1)\<close> neither function returns a
  world, and on \<open>[s, s)\<close>, the left half, the only exception is \<^verbatim>\<open>RecursionError\<close>.
\<close>

lemma retry_single_aux:
  assumes ae: "\<forall>v r. get_transactions self sdk (py_slice array_address s (s + 1)) network
                        (v :: ('s, 'f) world) = Some r \<longrightarrow> (\<exists>v'. r = Inr ([], v'))"
  shows "(\<forall>w :: ('s, 'f) world.
           extract_transactions_between_rec self sdk os array_address s (s + 1) network
             extract_dir stack w \<in> {None, Some (Inl RecursionError)} \<and>
           extract_transactions_rec self sdk os array_address s (s + 1) network
             extract_dir stack w \<in> {None, Some (Inl RecursionError)} \<and>
           (\<forall>e. extract_transactions_between_rec self sdk os array_address s s network
                  extract_dir stack w = Some (Inl e) \<longrightarrow> e = RecursionError) \<and>
           (\<forall>e. extract_transactions_rec self sdk os array_address s s network
                  extract_dir stack w = Some (Inl e) \<longrightarrow> e = RecursionError))"
proof (induction stack)
  case 0
  show ?case by simp
next
  case (Suc k)
  have sup: "supported_network network" using ae by (rule always_empty_supported)
  have mid1: "(s + (s + 1)) div 2 = s" and mid0: "(s + s) div 2 = s" by simp_all
  have empty: "py_slice array_address s s = []" by (simp add: py_slice_def Let_def)
  show ?case
  proof (intro allI conjI impI)
    fix w :: "('s, 'f) world"
    let ?w0 = "py_print (extracting_line s (s + 1)) w"
    show "extract_transactions_between_rec self sdk os array_address s (s + 1) network
             extract_dir (Suc k) w \<in> {None, Some (Inl RecursionError)}"
    proof (cases "get_transactions self sdk (py_slice array_address s (s + 1)) network ?w0")
      case None
      then show ?thesis by simp
    next
      case (Some r)
      with ae obtain v' where "r = Inr ([], v')" by blast
      with Some Suc show ?thesis by (simp add: shape_0_def)
    qed
  next
    fix w :: "('s, 'f) world"
    show "extract_transactions_rec self sdk os array_address s (s + 1) network
             extract_dir (Suc k) w \<in> {None, Some (Inl RecursionError)}"
    proof (cases "extract_transactions_between_rec self sdk os array_address s s network
                    extract_dir k (py_print ''Retrying with smaller query'' w)")
      case None
      then show ?thesis by (simp add: mid1 Let_def)
    next
      case (Some r)
      show ?thesis
      proof (cases r)
        case (Inl e)
        with Some Suc have "e = RecursionError" by blast
        with Some Inl show ?thesis by (simp add: mid1 Let_def)
      next
        case (Inr w2)
        with Some Suc show ?thesis by (simp add: mid1 Let_def)
      qed
    qed
  next
    fix w :: "('s, 'f) world" and e
    show "e = RecursionError"
      if res: "extract_transactions_between_rec self sdk os array_address s s network
                     extract_dir (Suc k) w = Some (Inl e)"
    proof -
      let ?g = "get_transactions self sdk [] network (py_print (extracting_line s s) w)"
      from res obtain r where g: "?g = Some r"
        by (cases ?g) (simp_all add: empty)
      have "r \<noteq> Inl x" for x
        using g get_transactions_no_error [OF sup, of self sdk "[]"
                "py_print (extracting_line s s) w" x] by auto
      then obtain df w1 where r: "r = Inr (df, w1)" by (cases r) auto
      show "e = RecursionError"
      proof (cases "shape_0 df = 0")
        case True
        with res g r have "extract_transactions_rec self sdk os array_address s s network
              extract_dir k (py_print ''Retrying with smaller query'' w1) = Some (Inl e)"
          by (simp add: empty)
        with Suc show ?thesis by blast
      next
        case False
        with res g r show ?thesis by (simp add: empty export_address_Nil)
      qed
    qed
  next
    fix w :: "('s, 'f) world" and e
    show "e = RecursionError"
      if res: "extract_transactions_rec self sdk os array_address s s network
                     extract_dir (Suc k) w = Some (Inl e)"
    proof -
      let ?l = "extract_transactions_between_rec self sdk os array_address s s network
                    extract_dir k (py_print ''Retrying with smaller query'' w)"
      from res obtain r where l: "?l = Some r"
        by (cases ?l) (simp_all add: mid0 Let_def)
      show "e = RecursionError"
      proof (cases r)
        case (Inl x)
        with res l have "x = e" by (simp add: mid0 Let_def)
        with l Inl Suc show ?thesis by blast
      next
        case (Inr w2)
        with res l have "extract_transactions_between_rec self sdk os array_address s s network
                    extract_dir k w2 = Some (Inl e)" by (simp add: mid0 Let_def)
        with Suc show ?thesis by blast
      qed
    qed
  qed
qed

text \<open>When every query returns, the retry returns too: the stack is finite.\<close>

lemma retry_returns:
  assumes tot: "\<forall>sl v. get_transactions self sdk sl network (v :: ('s, 'f) world) \<noteq> None"
  shows "(\<forall>s e (w :: ('s, 'f) world).
           extract_transactions_between_rec self sdk os array_address s e network
             extract_dir stack w \<noteq> None \<and>
           extract_transactions_rec self sdk os array_address s e network
             extract_dir stack w \<noteq> None)"
proof (induction stack)
  case 0
  show ?case by simp
next
  case (Suc k)
  show ?case
  proof (intro allI conjI)
    fix s e and w :: "('s, 'f) world"
    from tot obtain r where
      g: "get_transactions self sdk (py_slice array_address s e) network
            (py_print (extracting_line s e) w) = Some r" by fastforce
    show "extract_transactions_between_rec self sdk os array_address s e network
             extract_dir (Suc k) w \<noteq> None"
      using g Suc by (auto split: sum.splits prod.splits)
    obtain r1 where l: "extract_transactions_between_rec self sdk os array_address s
             ((s + e) div 2) network extract_dir k
             (py_print ''Retrying with smaller query'' w) = Some r1"
      using Suc by fastforce
    show "extract_transactions_rec self sdk os array_address s e network
             extract_dir (Suc k) w \<noteq> None"
      using l Suc by (auto simp: Let_def split: sum.splits)
  qed
qed

lemma retry_single_recursion_error:
  assumes ae: "\<forall>v r. get_transactions self sdk (py_slice array_address s (s + 1)) network
                        (v :: ('s, 'f) world) = Some r \<longrightarrow> (\<exists>v'. r = Inr ([], v'))"
      and tot: "\<forall>sl v. get_transactions self sdk sl network (v :: ('s, 'f) world) \<noteq> None"
  shows "extract_transactions_between_rec self sdk os array_address s (s + 1) network
           extract_dir stack (w :: ('s, 'f) world) = Some (Inl RecursionError)"
    and "extract_transactions_rec self sdk os array_address s (s + 1) network
           extract_dir stack w = Some (Inl RecursionError)"
proof -
  note a = retry_single_aux [OF ae, where os = os and extract_dir = extract_dir and stack = stack]
  note r = retry_returns [OF tot, where os = os and array_address = array_address
                            and extract_dir = extract_dir and stack = stack]
  from a r show "extract_transactions_between_rec self sdk os array_address s (s + 1) network
           extract_dir stack w = Some (Inl RecursionError)"
    by blast
  from a r show "extract_transactions_rec self sdk os array_address s (s + 1) network
           extract_dir stack w = Some (Inl RecursionError)"
    by blast
qed


lemma execute_query_always_empty:
  assumes "PAGE_SIZE self \<noteq> 0" "MAX_ROWS self \<noteq> 0"
  shows "execute_query self sdk_always_empty sql v =
           Some (Inr ([], v\<lparr>service := Suc (service v)\<rparr>))"
proof -
  have pg: "execute_query_page self sdk_always_empty sql 1 v =
            ([], v\<lparr>service := Suc (service v)\<rparr>)"
    by (simp add: execute_query_page_def sdk_always_empty_def)
  have short: "shape_0 [] \<noteq> PAGE_SIZE self"
    using assms by (simp add: shape_0_def)
  have "execute_query_while self sdk_always_empty sql (PAGE_SIZE self) 1 [] v =
        execute_query_while self sdk_always_empty sql (shape_0 []) (1 + 1) ([] @ [[]])
          (v\<lparr>service := Suc (service v)\<rparr>)"
    by (subst execute_query_while_continue) (simp_all add: pg)
  also have "\<dots> = Some ([] @ [[]], v\<lparr>service := Suc (service v)\<rparr>)"
    by (rule execute_query_while_stop [OF short])
  finally show ?thesis
    using assms by (simp add: execute_query_def pd_concat_def shape_0_def)
qed

lemma get_transactions_always_empty:
  assumes "supported_network network" "PAGE_SIZE self \<noteq> 0" "MAX_ROWS self \<noteq> 0"
  shows "get_transactions self sdk_always_empty sl network v =
           Some (Inr ([], v\<lparr>service := Suc (service v)\<rparr>))"
  using assms(1)
  by (auto simp: get_transactions_def supported_network_def
        execute_query_always_empty [OF assms(2,3)])

text \<open>
  C2. The claim says that on a range of one address whose query always comes back empty
  the retry never terminates. Whenever the query of a range returns no rows,
  \<open>extract_transactions_between_rec\<close> does call \<open>extract_transactions_rec\<close> on the same
  range, whatever its size, and on \<open>[s, s + 1)\<close> the right half is the range itself: the
  recursion has no end of its own, and with such a query neither function ever returns
  a world, whatever the stack. But the stack is finite: when every query returns, the
  call ends, with the \<^verbatim>\<open>RecursionError\<close> of the interpreter, which reaches the caller.
\<close>

theorem single_address_retry_recursion_error:
  "((\<forall>v r. get_transactions self sdk (py_slice array_address s (s + 1)) network
              (v :: ('s, 'f) world) = Some r \<longrightarrow> (\<exists>v'. r = Inr ([], v'))) \<longrightarrow>
      (\<forall>stack (w :: ('s, 'f) world).
         extract_transactions_between_rec self sdk os array_address s (s + 1) network
           extract_dir stack w \<in> {None, Some (Inl RecursionError)} \<and>
         extract_transactions_rec self sdk os array_address s (s + 1) network
           extract_dir stack w \<in> {None, Some (Inl RecursionError)}) \<and>
      ((\<forall>sl v. get_transactions self sdk sl network (v :: ('s, 'f) world) \<noteq> None) \<longrightarrow>
         (\<forall>stack (w :: ('s, 'f) world).
            extract_transactions_between_rec self sdk os array_address s (s + 1) network
              extract_dir stack w = Some (Inl RecursionError) \<and>
            extract_transactions_rec self sdk os array_address s (s + 1) network
              extract_dir stack w = Some (Inl RecursionError)))) \<and>
   (\<forall>start_index end_index stack df (w :: ('s, 'f) world) w1.
      get_transactions self sdk (py_slice array_address start_index end_index) network
        (py_print (extracting_line start_index end_index) w) = Some (Inr (df, w1)) \<and>
      shape_0 df = 0 \<longrightarrow>
      extract_transactions_between_rec self sdk os array_address start_index end_index
        network extract_dir (Suc stack) w =
      extract_transactions_rec self sdk os array_address start_index end_index network
        extract_dir stack (py_print ''Retrying with smaller query'' w1)) \<and>
   (\<forall>start_index end_index stack (w :: ('s, 'f) world).
      extract_transactions_between_rec self sdk os array_address start_index end_index
        network extract_dir (Suc stack) w =
        (case get_transactions self sdk (py_slice array_address start_index end_index) network
                (py_print (extracting_line start_index end_index) w) of
           None \<Rightarrow> None
         | Some (Inl x) \<Rightarrow> Some (Inl x)
         | Some (Inr (df, w1)) \<Rightarrow>
             if shape_0 df = 0 then
               extract_transactions_rec self sdk os array_address start_index end_index
                 network extract_dir stack (py_print ''Retrying with smaller query'' w1)
             else
               (case export_address os df (py_slice array_address start_index end_index)
                       extract_dir network w1 of
                  Inl x \<Rightarrow> Some (Inl x)
                | Inr w2 \<Rightarrow> Some (Inr w2)))) \<and>
   (\<forall>start_index end_index (w :: ('s, 'f) world).
      extract_transactions_between_rec self sdk os array_address start_index end_index
        network extract_dir 0 w = Some (Inl RecursionError))"
proof (intro conjI impI allI)
  fix stack and w :: "('s, 'f) world"
  assume ae: "\<forall>v r. get_transactions self sdk (py_slice array_address s (s + 1)) network
              (v :: ('s, 'f) world) = Some r \<longrightarrow> (\<exists>v'. r = Inr ([], v'))"
  note a = retry_single_aux [OF ae, where os = os and extract_dir = extract_dir and stack = stack]
  from a show "extract_transactions_between_rec self sdk os array_address s (s + 1) network
           extract_dir stack w \<in> {None, Some (Inl RecursionError)}" by blast
  from a show "extract_transactions_rec self sdk os array_address s (s + 1) network
           extract_dir stack w \<in> {None, Some (Inl RecursionError)}" by blast
next
  fix stack and w :: "('s, 'f) world"
  assume ae: "\<forall>v r. get_transactions self sdk (py_slice array_address s (s + 1)) network
              (v :: ('s, 'f) world) = Some r \<longrightarrow> (\<exists>v'. r = Inr ([], v'))"
    and tot: "\<forall>sl v. get_transactions self sdk sl network (v :: ('s, 'f) world) \<noteq> None"
  show "extract_transactions_between_rec self sdk os array_address s (s + 1) network
           extract_dir stack w = Some (Inl RecursionError)"
    by (rule retry_single_recursion_error(1) [OF ae tot])
  show "extract_transactions_rec self sdk os array_address s (s + 1) network
           extract_dir stack w = Some (Inl RecursionError)"
    by (rule retry_single_recursion_error(2) [OF ae tot])
next
  fix start_index end_index stack df and w w1 :: "('s, 'f) world"
  assume "get_transactions self sdk (py_slice array_address start_index end_index) network
        (py_print (extracting_line start_index end_index) w) = Some (Inr (df, w1)) \<and>
      shape_0 df = 0"
  then show "extract_transactions_between_rec self sdk os array_address start_index end_index
        network extract_dir (Suc stack) w =
      extract_transactions_rec self sdk os array_address start_index end_index network
        extract_dir stack (py_print ''Retrying with smaller query'' w1)"
    by simp
next
  fix start_index end_index stack and w :: "('s, 'f) world"
  show "extract_transactions_between_rec self sdk os array_address start_index end_index
        network extract_dir (Suc stack) w =
        (case get_transactions self sdk (py_slice array_address start_index end_index) network
                (py_print (extracting_line start_index end_index) w) of
           None \<Rightarrow> None
         | Some (Inl x) \<Rightarrow> Some (Inl x)
         | Some (Inr (df, w1)) \<Rightarrow>
             if shape_0 df = 0 then
               extract_transactions_rec self sdk os array_address start_index end_index
                 network extract_dir stack (py_print ''Retrying with smaller query'' w1)
             else
               (case export_address os df (py_slice array_address start_index end_index)
                       extract_dir network w1 of
                  Inl x \<Rightarrow> Some (Inl x)
                | Inr w2 \<Rightarrow> Some (Inr w2)))"
    by (simp only: extract_transactions_between_rec.simps)
next
  fix start_index end_index and w :: "('s, 'f) world"
  show "extract_transactions_between_rec self sdk os array_address start_index end_index
        network extract_dir 0 w = Some (Inl RecursionError)"
    by simp
qed

theorem single_address_retry_recursion_error_witness:
  "py_slice [''0xAAA'', ''0xBBB''] 1 (1 + 1) = [''0xBBB''] \<and>
   get_transactions api_small sdk_always_empty [''0xBBB''] ''polygon'' world_init =
     Some (Inr ([], world_init\<lparr>service := 1\<rparr>)) \<and>
   extract_transactions_between_rec api_small sdk_always_empty example_os
     [''0xAAA'', ''0xBBB''] 1 (1 + 1) ''polygon'' ''out'' 7 world_init =
     Some (Inl RecursionError) \<and>
   extract_transactions_rec api_small sdk_always_empty example_os
     [''0xAAA'', ''0xBBB''] 1 (1 + 1) ''polygon'' ''out'' 7 world_init =
     Some (Inl RecursionError)"
proof -
  have ps: "PAGE_SIZE api_small \<noteq> 0" and mr: "MAX_ROWS api_small \<noteq> 0"
    by (simp_all add: api_small_def FlipsideApi_init_def)
  have sup: "supported_network ''polygon''" by (simp add: supported_network_def)
  note gt = get_transactions_always_empty [OF sup ps mr]
  have sl: "py_slice [''0xAAA'', ''0xBBB''] 1 (1 + 1) = [''0xBBB'']"
    by (simp add: py_slice_def Let_def)
  have hyp: "\<forall>v r. get_transactions api_small sdk_always_empty
                     (py_slice [''0xAAA'', ''0xBBB''] 1 (1 + 1)) ''polygon''
                     (v :: (nat, example_fs) world) = Some r \<longrightarrow> (\<exists>v'. r = Inr ([], v'))"
    unfolding gt by blast
  have tot: "\<forall>sl v. get_transactions api_small sdk_always_empty sl ''polygon''
                      (v :: (nat, example_fs) world) \<noteq> None"
    unfolding gt by blast
  have g0: "get_transactions api_small sdk_always_empty [''0xBBB''] ''polygon'' world_init =
            Some (Inr ([], world_init\<lparr>service := 1\<rparr>))"
    unfolding gt by (simp add: world_init_def)
  note t = single_address_retry_recursion_error
             [where self = api_small and sdk = sdk_always_empty and os = example_os
                and array_address = "[''0xAAA'', ''0xBBB'']" and s = 1
                and network = "''polygon''" and extract_dir = "''out''",
              THEN conjunct1, THEN mp, OF hyp, THEN conjunct2, THEN mp, OF tot,
              THEN spec, THEN spec, of 7 world_init]
  from sl g0 t [THEN conjunct1] t [THEN conjunct2] show ?thesis by (intro conjI)
qed

text \<open>
  With the default recursion limit of 1000 and a service that answers every query with
  no rows, the retry on the range of the one address ends: it raises
  \<^verbatim>\<open>RecursionError\<close>.
\<close>

theorem single_address_retry_counterexample:
  "py_slice [''0xAAA''] 0 (0 + 1) = [''0xAAA''] \<and>
   get_transactions (FlipsideApi_default ''key'') sdk_always_empty [''0xAAA''] ''ethereum''
     world_init = Some (Inr ([], world_init\<lparr>service := 1\<rparr>)) \<and>
   extract_transactions_between_rec (FlipsideApi_default ''key'') sdk_always_empty example_os
     [''0xAAA''] 0 (0 + 1) ''ethereum'' ''out'' 1000 world_init = Some (Inl RecursionError) \<and>
   extract_transactions_between_rec (FlipsideApi_default ''key'') sdk_always_empty example_os
     [''0xAAA''] 0 (0 + 1) ''ethereum'' ''out'' 1000 world_init \<noteq> None \<and>
   extract_transactions_rec (FlipsideApi_default ''key'') sdk_always_empty example_os
     [''0xAAA''] 0 (0 + 1) ''ethereum'' ''out'' 1000 world_init = Some (Inl RecursionError) \<and>
   extract_transactions_rec (FlipsideApi_default ''key'') sdk_always_empty example_os
     [''0xAAA''] 0 (0 + 1) ''ethereum'' ''out'' 1000 world_init \<noteq> None"
proof -
  let ?self = "FlipsideApi_default ''key''"
  have ps: "PAGE_SIZE ?self \<noteq> 0" and mr: "MAX_ROWS ?self \<noteq> 0"
    by (simp_all add: FlipsideApi_default_def FlipsideApi_init_def)
  have sup: "supported_network ''ethereum''" by (simp add: supported_network_def)
  note gt = get_transactions_always_empty [OF sup ps mr]
  have sl: "py_slice [''0xAAA''] 0 (0 + 1) = [''0xAAA'']"
    by (simp add: py_slice_def Let_def)
  have hyp: "\<forall>v r. get_transactions ?self sdk_always_empty (py_slice [''0xAAA''] 0 (0 + 1))
                     ''ethereum'' (v :: (nat, example_fs) world) = Some r \<longrightarrow>
                   (\<exists>v'. r = Inr ([], v'))"
    unfolding gt by blast
  have tot: "\<forall>sl v. get_transactions ?self sdk_always_empty sl ''ethereum''
                      (v :: (nat, example_fs) world) \<noteq> None"
    unfolding gt by blast
  have g0: "get_transactions ?self sdk_always_empty [''0xAAA''] ''ethereum'' world_init =
            Some (Inr ([], world_init\<lparr>service := 1\<rparr>))"
    unfolding gt by (simp add: world_init_def)
  note b = retry_single_recursion_error(1) [OF hyp tot, of example_os "''out''" 1000 world_init]
  note r = retry_single_recursion_error(2) [OF hyp tot, of example_os "''out''" 1000 world_init]
  have nb: "extract_transactions_between_rec ?self sdk_always_empty example_os
     [''0xAAA''] 0 (0 + 1) ''ethereum'' ''out'' 1000 world_init \<noteq> None"
    unfolding b by simp
  have nr: "extract_transactions_rec ?self sdk_always_empty example_os
     [''0xAAA''] 0 (0 + 1) ''ethereum'' ''out'' 1000 world_init \<noteq> None"
    unfolding r by simp
  from sl g0 b nb r nr show ?thesis by (intro conjI)
qed

lemma set_py_range: "set (py_range q) = {0..<q}"
  by (auto simp: py_range_def)

lemma shape_never_int: "shape df \<noteq> PyInt n"
  by (simp add: shape_def)

lemma batch_count_bounds:
  fixes M :: int
  assumes "0 < M" "batch_count L M = Inr q"
  shows "L \<le> q * M" and "q * M < L + M"
proof -
  have q: "q = (if L mod M \<noteq> 0 then L div M + 1 else L div M)"
    using assms by (simp add: batch_count_def Let_def split: if_splits)
  have dm: "L div M * M + L mod M = L" by simp
  have m: "0 \<le> L mod M" "L mod M < M" using assms(1) by simp_all
  show "L \<le> q * M"
  proof (cases "L mod M = 0")
    case True
    with q dm show ?thesis by simp
  next
    case False
    then have "q * M = L div M * M + M" using q by (simp add: algebra_simps)
    with dm m show ?thesis by linarith
  qed
  show "q * M < L + M"
  proof (cases "L mod M = 0")
    case True
    with q dm assms(1) show ?thesis by simp
  next
    case False
    then have "q * M = L div M * M + M" using q by (simp add: algebra_simps)
    moreover have "0 < L mod M" using False m by linarith
    ultimately show ?thesis using dm by linarith
  qed
qed

lemma unclamped_ranges_union:
  fixes M :: int
  assumes "0 < M"
  shows "(\<Union>i \<in> {0..<q}. {i * M ..< (i + 1) * M}) = {0 ..< q * M}"
proof (rule set_eqI, rule iffI)
  fix x
  assume "x \<in> (\<Union>i \<in> {0..<q}. {i * M ..< (i + 1) * M})"
  then obtain i where i: "0 \<le> i" "i < q" "i * M \<le> x" "x < (i + 1) * M" by auto
  have "0 \<le> i * M" using i(1) assms by simp
  moreover have "(i + 1) * M \<le> q * M" using i(2) assms by (simp add: mult_right_mono)
  ultimately show "x \<in> {0 ..< q * M}" using i by simp
next
  fix x
  assume x: "x \<in> {0 ..< q * M}"
  let ?i = "x div M"
  have dm: "?i * M + x mod M = x" by simp
  have m: "0 \<le> x mod M" "x mod M < M" using assms by simp_all
  have i0: "0 \<le> ?i" using x assms by (simp add: pos_imp_zdiv_nonneg_iff)
  have lo: "?i * M \<le> x" using dm m by linarith
  have hi: "x < (?i + 1) * M"
  proof -
    have "(?i + 1) * M = ?i * M + M" by (simp add: algebra_simps)
    with dm m show ?thesis by linarith
  qed
  have iq: "?i < q"
  proof (rule ccontr)
    assume "\<not> ?i < q"
    then have "q * M \<le> ?i * M" using assms by (simp add: mult_right_mono)
    with lo x show False by simp
  qed
  from i0 iq lo hi show "x \<in> (\<Union>i \<in> {0..<q}. {i * M ..< (i + 1) * M})" by auto
qed

lemma unclamped_ranges_disjoint:
  fixes M :: int
  assumes "0 < M" "i < j"
  shows "{i * M ..< (i + 1) * M} \<inter> {j * M ..< (j + 1) * M} = {}"
proof -
  have "(i + 1) * M \<le> j * M" using assms by (simp add: mult_right_mono)
  then show ?thesis by auto
qed

text \<open>
  C5. The claim says that the range of batch \<open>i\<close> is \<open>[i * M, (i + 1) * M)\<close> clamped to the
  length \<open>L\<close> of the list, and that the union of the ranges is \<open>[0, L)\<close>. For a positive
  \<open>MAX_ADDRESS\<close> \<open>M\<close> (0 raises \<^verbatim>\<open>ZeroDivisionError\<close> in \<open>batch_count\<close>), lines 84-86 do
  compute \<open>q = ceil (L / M)\<close>, and the loop runs its body for \<open>i = 0, ..., q - 1\<close>. The body
  works on \<open>start_index = i * M\<close> and \<open>end_index = (i + 1) * M\<close>, and nothing clamps
  \<open>end_index\<close>: these two numbers are what is printed and what
  \<open>extract_transactions_rec\<close> receives when the batch fails. The ranges are pairwise
  disjoint and their union is \<open>[0, q * M)\<close>, which contains \<open>[0, L)\<close> and ends less than
  \<open>M\<close> after \<open>L\<close>. What is clamped is the slice
  \<^verbatim>\<open>array_address[start_index: end_index]\<close> that is queried and exported: it holds the
  addresses at the indices from \<open>i * M\<close> up to, not including, the smaller of
  \<open>(i + 1) * M\<close> and \<open>L\<close>; the index sets of the slices have union \<open>[0, L)\<close>, and the slices
  concatenated give the list back.
\<close>

theorem batch_ranges_partition:
  assumes "0 < MAX_ADDRESS self"
      and "batch_count (int (length array_address)) (MAX_ADDRESS self) = Inr q"
  shows "q = \<lceil>real (length array_address) / real_of_int (MAX_ADDRESS self)\<rceil> \<and>
         length (py_range q) = nat q \<and>
         set (py_range q) = {0..<q} \<and>
         extract_transactions_net self sdk os extract_dir array_address network stack w =
           for_loop
             (extract_transactions_net_body self sdk os extract_dir array_address network stack)
             (py_range q)
             (py_print (''Extracting transactions for network:  '' @ network) w) \<and>
         (\<forall>i v. extract_transactions_net_body self sdk os extract_dir array_address network
                  stack i v =
            (case get_transactions self sdk
                    (py_slice array_address (i * MAX_ADDRESS self) ((i + 1) * MAX_ADDRESS self))
                    network
                    (py_print (extracting_line (i * MAX_ADDRESS self)
                                 ((i + 1) * MAX_ADDRESS self)) v) of
               None \<Rightarrow> None
             | Some (Inl x) \<Rightarrow> Some (Inl x)
             | Some (Inr (df, w2)) \<Rightarrow>
                 if shape_0 df = 0 \<or> shape df = PyInt (MAX_ROWS self) then
                   extract_transactions_rec self sdk os array_address (i * MAX_ADDRESS self)
                     ((i + 1) * MAX_ADDRESS self) network extract_dir stack w2
                 else
                   (case export_address os df
                           (py_slice array_address (i * MAX_ADDRESS self)
                              ((i + 1) * MAX_ADDRESS self))
                           extract_dir network w2 of
                      Inl x \<Rightarrow> Some (Inl x)
                    | Inr w3 \<Rightarrow> Some (Inr w3)))) \<and>
         (\<forall>i \<in> set (py_range q). \<forall>j \<in> set (py_range q). i < j \<longrightarrow>
            {i * MAX_ADDRESS self ..< (i + 1) * MAX_ADDRESS self} \<inter>
            {j * MAX_ADDRESS self ..< (j + 1) * MAX_ADDRESS self} = {}) \<and>
         (\<Union>i \<in> set (py_range q). {i * MAX_ADDRESS self ..< (i + 1) * MAX_ADDRESS self}) =
           {0 ..< q * MAX_ADDRESS self} \<and>
         int (length array_address) \<le> q * MAX_ADDRESS self \<and>
         q * MAX_ADDRESS self < int (length array_address) + MAX_ADDRESS self \<and>
         (\<forall>i \<in> set (py_range q).
            py_slice array_address (i * MAX_ADDRESS self) ((i + 1) * MAX_ADDRESS self) =
            map (\<lambda>j. array_address ! nat j)
              [i * MAX_ADDRESS self ..
               min ((i + 1) * MAX_ADDRESS self) (int (length array_address)) - 1]) \<and>
         (\<Union>i \<in> set (py_range q).
            {i * MAX_ADDRESS self ..<
               min ((i + 1) * MAX_ADDRESS self) (int (length array_address))}) =
           {0 ..< int (length array_address)} \<and>
         concat (map (\<lambda>i. py_slice array_address (i * MAX_ADDRESS self)
                              ((i + 1) * MAX_ADDRESS self)) (py_range q)) = array_address"
proof (intro conjI)
  let ?M = "MAX_ADDRESS self"
  let ?L = "int (length array_address)"
  show "q = \<lceil>real (length array_address) / real_of_int ?M\<rceil>"
    using batch_count_ceiling [OF assms(1), of ?L] assms(2) by simp
  show "length (py_range q) = nat q"
    by (simp add: py_range_nat)
  show "set (py_range q) = {0..<q}" by (rule set_py_range)
  show "extract_transactions_net self sdk os extract_dir array_address network stack w =
           for_loop
             (extract_transactions_net_body self sdk os extract_dir array_address network stack)
             (py_range q)
             (py_print (''Extracting transactions for network:  '' @ network) w)"
    by (simp add: extract_transactions_net_def Let_def assms(2))
  show "\<forall>i v. extract_transactions_net_body self sdk os extract_dir array_address network
                  stack i v =
            (case get_transactions self sdk
                    (py_slice array_address (i * ?M) ((i + 1) * ?M)) network
                    (py_print (extracting_line (i * ?M) ((i + 1) * ?M)) v) of
               None \<Rightarrow> None
             | Some (Inl x) \<Rightarrow> Some (Inl x)
             | Some (Inr (df, w2)) \<Rightarrow>
                 if shape_0 df = 0 \<or> shape df = PyInt (MAX_ROWS self) then
                   extract_transactions_rec self sdk os array_address (i * ?M)
                     ((i + 1) * ?M) network extract_dir stack w2
                 else
                   (case export_address os df
                           (py_slice array_address (i * ?M) ((i + 1) * ?M))
                           extract_dir network w2 of
                      Inl x \<Rightarrow> Some (Inl x)
                    | Inr w3 \<Rightarrow> Some (Inr w3)))"
    by (simp only: extract_transactions_net_body_def Let_def) simp
  show "\<forall>i \<in> set (py_range q). \<forall>j \<in> set (py_range q). i < j \<longrightarrow>
            {i * ?M ..< (i + 1) * ?M} \<inter> {j * ?M ..< (j + 1) * ?M} = {}"
    using unclamped_ranges_disjoint [OF assms(1)] by blast
  show "(\<Union>i \<in> set (py_range q). {i * ?M ..< (i + 1) * ?M}) = {0 ..< q * ?M}"
    unfolding set_py_range by (rule unclamped_ranges_union [OF assms(1)])
  show "?L \<le> q * ?M" by (rule batch_count_bounds(1) [OF assms])
  show "q * ?M < ?L + ?M" by (rule batch_count_bounds(2) [OF assms])
  show "\<forall>i \<in> set (py_range q).
            py_slice array_address (i * ?M) ((i + 1) * ?M) =
            map (\<lambda>j. array_address ! nat j) [i * ?M .. min ((i + 1) * ?M) ?L - 1]"
  proof
    fix i assume "i \<in> set (py_range q)"
    then have "0 \<le> i" by (simp add: set_py_range)
    with assms(1) have "0 \<le> i * ?M" "0 \<le> (i + 1) * ?M" by simp_all
    then show "py_slice array_address (i * ?M) ((i + 1) * ?M) =
            map (\<lambda>j. array_address ! nat j) [i * ?M .. min ((i + 1) * ?M) ?L - 1]"
      by (rule py_slice_indices)
  qed
  show "(\<Union>i \<in> set (py_range q). {i * ?M ..< min ((i + 1) * ?M) ?L}) = {0 ..< ?L}"
    unfolding set_py_range by (rule batch_ranges_union [OF assms])
  show "concat (map (\<lambda>i. py_slice array_address (i * ?M) ((i + 1) * ?M)) (py_range q)) =
          array_address"
    by (rule batches_cover [OF assms])
qed

lemma extracting_line_2_4:
  "extracting_line 2 4 = ''Extracting transactions for address: 2 - 4''"
  by code_simp

theorem batch_ranges_partition_witness:
  "(0::int) < MAX_ADDRESS api_small \<and>
   batch_count (int (length [''0xAAA'', ''0xBBB'', ''0xCCC''])) (MAX_ADDRESS api_small) = Inr 2 \<and>
   (2::int) = \<lceil>real (length [''0xAAA'', ''0xBBB'', ''0xCCC'']) / real_of_int (MAX_ADDRESS api_small)\<rceil> \<and>
   py_range 2 = [0, 1] \<and>
   2 * MAX_ADDRESS api_small = 4 \<and>
   py_slice [''0xAAA'', ''0xBBB'', ''0xCCC''] (0 * MAX_ADDRESS api_small)
     ((0 + 1) * MAX_ADDRESS api_small) = [''0xAAA'', ''0xBBB''] \<and>
   py_slice [''0xAAA'', ''0xBBB'', ''0xCCC''] (1 * MAX_ADDRESS api_small)
     ((1 + 1) * MAX_ADDRESS api_small) = [''0xCCC''] \<and>
   concat (map (\<lambda>i. py_slice [''0xAAA'', ''0xBBB'', ''0xCCC''] (i * MAX_ADDRESS api_small)
                        ((i + 1) * MAX_ADDRESS api_small)) (py_range 2)) =
     [''0xAAA'', ''0xBBB'', ''0xCCC'']"
proof -
  let ?A = "[''0xAAA'', ''0xBBB'', ''0xCCC'']"
  have M: "MAX_ADDRESS api_small = 2"
    by (simp add: api_small_def FlipsideApi_init_def)
  have h1: "0 < MAX_ADDRESS api_small" by (simp add: M)
  have h2: "batch_count (int (length ?A)) (MAX_ADDRESS api_small) = Inr 2"
    by (simp add: batch_count_def M Let_def)
  note t = batch_ranges_partition
             [where self = api_small and array_address = ?A and q = 2
                and sdk = sdk_always_empty and os = example_os and extract_dir = "''out''"
                and network = "''ethereum''" and stack = 1000 and w = world_init, OF h1 h2]
  have r: "py_range 2 = [0, 1]"
    by (simp add: py_range_def upto.simps)
  have qm: "2 * MAX_ADDRESS api_small = 4" by (simp add: M)
  have s0: "py_slice ?A (0 * MAX_ADDRESS api_small) ((0 + 1) * MAX_ADDRESS api_small) =
            [''0xAAA'', ''0xBBB'']"
    by (simp add: py_slice_def M Let_def)
  have s1: "py_slice ?A (1 * MAX_ADDRESS api_small) ((1 + 1) * MAX_ADDRESS api_small) =
            [''0xCCC'']"
    by (simp add: py_slice_def M Let_def)
  from h1 h2 t [THEN conjunct1] r qm s0 s1
       t [THEN conjunct2, THEN conjunct2, THEN conjunct2, THEN conjunct2, THEN conjunct2,
          THEN conjunct2, THEN conjunct2, THEN conjunct2, THEN conjunct2, THEN conjunct2,
          THEN conjunct2]
  show ?thesis by (intro conjI)
qed

text \<open>
  Three addresses in batches of two: the second batch has the range \<open>[2, 4)\<close>, not
  \<open>[2, 3)\<close>. When its query returns no rows, \<open>[2, 4)\<close> is the range printed and the
  range that \<open>extract_transactions_rec\<close> is called on; index 3 is in it, and is no index
  of the list.
\<close>

theorem batch_ranges_counterexample:
  "batch_count (int (length [''0xAAA'', ''0xBBB'', ''0xCCC''])) (MAX_ADDRESS api_small) = Inr 2 \<and>
   1 * MAX_ADDRESS api_small = 2 \<and>
   (1 + 1) * MAX_ADDRESS api_small = 4 \<and>
   min ((1 + 1) * MAX_ADDRESS api_small) (int (length [''0xAAA'', ''0xBBB'', ''0xCCC''])) = 3 \<and>
   extract_transactions_net_body api_small sdk_always_empty example_os ''out''
     [''0xAAA'', ''0xBBB'', ''0xCCC''] ''ethereum'' 1000 1 world_init =
   extract_transactions_rec api_small sdk_always_empty example_os
     [''0xAAA'', ''0xBBB'', ''0xCCC''] 2 4 ''ethereum'' ''out'' 1000
     (world_init\<lparr>stdout := [''Extracting transactions for address: 2 - 4''], service := 1\<rparr>) \<and>
   (3::int) \<in> {1 * MAX_ADDRESS api_small ..< (1 + 1) * MAX_ADDRESS api_small} \<and>
   (3::int) \<notin> {0 ..< int (length [''0xAAA'', ''0xBBB'', ''0xCCC''])}"
proof -
  let ?A = "[''0xAAA'', ''0xBBB'', ''0xCCC'']"
  have M: "MAX_ADDRESS api_small = 2"
    by (simp add: api_small_def FlipsideApi_init_def)
  have ps: "PAGE_SIZE api_small \<noteq> 0" and mr: "MAX_ROWS api_small \<noteq> 0"
    by (simp_all add: api_small_def FlipsideApi_init_def)
  have sup: "supported_network ''ethereum''" by (simp add: supported_network_def)
  note gt = get_transactions_always_empty [OF sup ps mr]
  have c1: "batch_count (int (length ?A)) (MAX_ADDRESS api_small) = Inr 2"
    by (simp add: batch_count_def M Let_def)
  have c2: "1 * MAX_ADDRESS api_small = 2" "(1 + 1) * MAX_ADDRESS api_small = 4"
    by (simp_all add: M)
  have c3: "min ((1 + 1) * MAX_ADDRESS api_small) (int (length ?A)) = 3"
    by (simp add: M)
  have c4: "extract_transactions_net_body api_small sdk_always_empty example_os ''out''
     ?A ''ethereum'' 1000 1 world_init =
   extract_transactions_rec api_small sdk_always_empty example_os ?A 2 4 ''ethereum'' ''out'' 1000
     (world_init\<lparr>stdout := [''Extracting transactions for address: 2 - 4''], service := 1\<rparr>)"
    by (simp add: extract_transactions_net_body_def Let_def M gt shape_0_def
          extracting_line_2_4 py_print_def world_init_def)
  have c5: "(3::int) \<in> {1 * MAX_ADDRESS api_small ..< (1 + 1) * MAX_ADDRESS api_small}"
    by (simp add: M)
  have c6: "(3::int) \<notin> {0 ..< int (length ?A)}" by simp
  from c1 c2 c3 c4 c5 c6 show ?thesis by (intro conjI)
qed


lemma export_address_body_eq:
  "export_address_body os df extract_dir network address w =
     (if address_transactions df address \<noteq> []
      then save_csv os (address_transactions df address) (os_path_join extract_dir network)
             (csv_file_of extract_dir network address) w
      else Inr w)"
  by (simp add: export_address_body_def address_transactions_def csv_file_of_def Let_def
        shape_0_def)








lemma example_paths:
  "os_path_join ''out'' ''ethereum'' = ''out/ethereum''"
  "csv_file_of ''out'' ''ethereum'' ''0xAAA'' = ''out/ethereum/0xAAA_tx.csv''"
  "csv_file_of ''out'' ''ethereum'' ''0xBBB'' = ''out/ethereum/0xBBB_tx.csv''"
  "csv_file_of ''out'' ''ethereum'' ''0xCCC'' = ''out/ethereum/0xCCC_tx.csv''"
  "csv_file_of ''out'' ''ethereum'' ''a/b'' = ''out/ethereum/a/b_tx.csv''"
  "csv_file_of ''out'' ''ethereum'' ''/x'' = ''/x_tx.csv''"
  by (simp_all add: csv_file_of_def os_path_join_def)

lemma example_dirnames:
  "dirname ''out/ethereum/0xAAA_tx.csv'' = ''out/ethereum''"
  "dirname ''out/ethereum/0xBBB_tx.csv'' = ''out/ethereum''"
  "dirname ''out/ethereum/a/b_tx.csv'' = ''out/ethereum/a''"
  "dirname ''/x_tx.csv'' = ''/''"
  "parents [] ''out/ethereum'' = [''out'']"
  by code_simp+

text \<open>\<open>save_csv\<close> on the example file system, when the directory is not there yet.\<close>

lemma save_csv_example_first:
  assumes "dirs (files w) = {}" "csvs (files w) = Map.empty"
  shows "save_csv example_os df ''out/ethereum'' ''out/ethereum/0xAAA_tx.csv'' w =
           Inr (w\<lparr>files := \<lparr>dirs = {''out'', ''out/ethereum''},
                              csvs = [''out/ethereum/0xAAA_tx.csv'' \<mapsto> df]\<rparr>\<rparr>)"
  using assms
  by (cases "files w")
     (simp add: save_csv_def example_os_def example_dirnames insert_commute)



lemma extract_transactions_net_body_nonempty:
  assumes "get_transactions self sdk
             (py_slice array_address (i * MAX_ADDRESS self) ((i + 1) * MAX_ADDRESS self)) network
             (py_print (extracting_line (i * MAX_ADDRESS self) ((i + 1) * MAX_ADDRESS self)) w)
           = Some (Inr (df, w2))"
      and "shape_0 df \<noteq> 0"
  shows "extract_transactions_net_body self sdk os extract_dir array_address network stack i w =
           (case export_address os df
                   (py_slice array_address (i * MAX_ADDRESS self) ((i + 1) * MAX_ADDRESS self))
                   extract_dir network w2 of
              Inl e \<Rightarrow> Some (Inl e)
            | Inr w3 \<Rightarrow> Some (Inr w3))"
  using assms by (simp add: extract_transactions_net_body_def Let_def shape_never_int)

lemma extracting_line_0_100:
  "extracting_line 0 100 = ''Extracting transactions for address: 0 - 100''"
  by code_simp

text \<open>
  C1. The claim says that a batch whose table has 1000000 rows is handed to
  \<open>extract_transactions_rec\<close> and its rows are dropped. Line 94 compares \<^verbatim>\<open>df.shape\<close>, a
  tuple, with \<^verbatim>\<open>self.MAX_ROWS\<close>, an int: the comparison is false for every table
  (\<open>shape_never_int\<close>), so every table with a row goes to \<open>export_address\<close>
  (\<open>extract_transactions_net_body_nonempty\<close>). Here the service answers the one batch
  with ten full pages of 100000 rows: the table has \<open>MAX_ROWS\<close> rows, the warning of
  \<open>execute_query\<close> is printed, no retry is announced, and all 1000000 rows are written to
  the file of the address.
\<close>

theorem capped_batch_is_exported:
  "extract_transactions_net (FlipsideApi_default ''key'') sdk_capped example_os ''out''
     [''0xAAA''] ''ethereum'' 1000 world_init =
   Some (Inr \<lparr>stdout = [''Extracting transactions for network:  ethereum'',
                         ''Extracting transactions for address: 0 - 100'',
                         truncation_warning],
               files = \<lparr>dirs = {''out'', ''out/ethereum''},
                        csvs = [''out/ethereum/0xAAA_tx.csv'' \<mapsto>
                                  replicate 1000000 (example_row ''0x01'' ''0xAAA'' ''0xBBB'')]\<rparr>,
               service = 11\<rparr>) \<and>
   shape_0 (replicate 1000000 (example_row ''0x01'' ''0xAAA'' ''0xBBB'')) =
     MAX_ROWS (FlipsideApi_default ''key'')"
proof -
  let ?self = "FlipsideApi_default ''key''"
  let ?row = "example_row ''0x01'' ''0xAAA'' ''0xBBB''"
  define df where "df = replicate 1000000 ?row"
  have M: "MAX_ADDRESS ?self = 100"
    by (simp add: FlipsideApi_default_def FlipsideApi_init_def)
  have q: "batch_count (int (length [''0xAAA''])) (MAX_ADDRESS ?self) = Inr 1"
    by (simp add: batch_count_def M Let_def)
  have r: "py_range 1 = [0]" by (simp add: py_range_def upto.simps)
  have sl: "py_slice [''0xAAA''] (0 * MAX_ADDRESS ?self) ((0 + 1) * MAX_ADDRESS ?self) = [''0xAAA'']"
    by (simp add: py_slice_def M Let_def)
  have gt: "get_transactions ?self sdk_capped [''0xAAA''] ''ethereum'' v =
            Some (Inr (df, py_print truncation_warning (v\<lparr>service := service v + 11\<rparr>)))"
    for v :: "(nat, example_fs) world"
    by (simp add: get_transactions_def execute_query_capped df_def)
  have len: "shape_0 df = MAX_ROWS ?self"
    by (simp add: df_def shape_0_def MAX_ROWS_default)
  have ne: "shape_0 df \<noteq> 0" by (simp add: df_def shape_0_def)
  have sel: "address_transactions df ''0xAAA'' = df"
    by (simp add: address_transactions_def df_def example_row_def)
  have dfne: "df \<noteq> []" using ne by (auto simp: shape_0_def)
  have exp: "export_address example_os df [''0xAAA''] ''out'' ''ethereum'' v =
             save_csv example_os df ''out/ethereum'' ''out/ethereum/0xAAA_tx.csv'' v"
    for v :: "(nat, example_fs) world"
    by (simp add: export_address_def export_address_body_eq sel dfne example_paths
          split: sum.splits)
  have body: "extract_transactions_net_body ?self sdk_capped example_os ''out'' [''0xAAA'']
                ''ethereum'' 1000 0 v =
        (case save_csv example_os df ''out/ethereum'' ''out/ethereum/0xAAA_tx.csv''
                (py_print truncation_warning
                   ((py_print (extracting_line 0 100) v)
                      \<lparr>service := service (py_print (extracting_line 0 100) v) + 11\<rparr>)) of
           Inl e \<Rightarrow> Some (Inl e)
         | Inr w3 \<Rightarrow> Some (Inr w3))"
    for v :: "(nat, example_fs) world"
    unfolding extract_transactions_net_body_def Let_def sl
    by (simp add: M gt ne shape_never_int exp)
  let ?w = "py_print truncation_warning
              ((py_print (extracting_line 0 100)
                  (py_print ''Extracting transactions for network:  ethereum'' world_init))
                 \<lparr>service := service (py_print (extracting_line 0 100)
                    (py_print ''Extracting transactions for network:  ethereum'' world_init))
                    + 11\<rparr>)"
  have fs: "dirs (files ?w) = {}" "csvs (files ?w) = Map.empty"
    by (simp_all add: py_print_def world_init_def)
  have "extract_transactions_net ?self sdk_capped example_os ''out'' [''0xAAA''] ''ethereum''
          1000 world_init =
        (case save_csv example_os df ''out/ethereum'' ''out/ethereum/0xAAA_tx.csv'' ?w of
           Inl e \<Rightarrow> Some (Inl e)
         | Inr w3 \<Rightarrow> Some (Inr w3))"
    unfolding extract_transactions_net_def Let_def q
    by (simp add: r body split: sum.splits)
  also have "\<dots> = Some (Inr (?w\<lparr>files := \<lparr>dirs = {''out'', ''out/ethereum''},
                              csvs = [''out/ethereum/0xAAA_tx.csv'' \<mapsto> df]\<rparr>\<rparr>))"
    by (simp only: save_csv_example_first [OF fs] sum.case)
  also have "\<dots> = Some (Inr \<lparr>stdout = [''Extracting transactions for network:  ethereum'',
                         ''Extracting transactions for address: 0 - 100'',
                         truncation_warning],
               files = \<lparr>dirs = {''out'', ''out/ethereum''},
                        csvs = [''out/ethereum/0xAAA_tx.csv'' \<mapsto> df]\<rparr>,
               service = 11\<rparr>)"
    by (simp add: py_print_def world_init_def extracting_line_0_100)
  finally show ?thesis using len by (simp add: df_def)
qed

end
